theory Spec2Isabelle
  imports Main "HOL-Library.Word"
begin

section \<open>Strings of the source language\<close>

text \<open>
  A string of the source is a sequence of 16-bit code units; \<open>length\<close> counts code
  units, as the \<^verbatim>\<open>.length\<close> property does. Literals of the source are written as
  \<open>str ''...''\<close>.
\<close>

type_synonym code_unit = "16 word"
type_synonym jsstring = "code_unit list"

definition str :: "string \<Rightarrow> jsstring" where
  "str s = map of_char s"

text \<open>
  The code units that \<^verbatim>\<open>String.prototype.trim\<close> strips and that \<^verbatim>\<open>\s\<close> matches in a
  regular expression (the language's WhiteSpace and LineTerminator productions): TAB, LF,
  VT, FF, CR, SPACE, NBSP, U+1680, U+2000 to U+200A, U+2028, U+2029, U+202F, U+205F,
  U+3000 and U+FEFF.
\<close>

definition isWhiteSpace :: "code_unit \<Rightarrow> bool" where
  "isWhiteSpace c \<longleftrightarrow>
     c = 0x0009 \<or> c = 0x000A \<or> c = 0x000B \<or> c = 0x000C \<or> c = 0x000D \<or>
     c = 0x0020 \<or> c = 0x00A0 \<or> c = 0x1680 \<or> (0x2000 \<le> c \<and> c \<le> 0x200A) \<or>
     c = 0x2028 \<or> c = 0x2029 \<or> c = 0x202F \<or> c = 0x205F \<or> c = 0x3000 \<or>
     c = 0xFEFF"

definition trim :: "jsstring \<Rightarrow> jsstring" where
  "trim s = rev (dropWhile isWhiteSpace (rev (dropWhile isWhiteSpace s)))"

text \<open>\<^verbatim>\<open>!s\<close> on a string: only the empty string is falsy.\<close>

definition falsy :: "jsstring \<Rightarrow> bool" where
  "falsy s \<longleftrightarrow> s = []"

text \<open>\<^verbatim>\<open>s.substr(start, len)\<close> for non-negative arguments.\<close>

definition substr :: "jsstring \<Rightarrow> nat \<Rightarrow> nat \<Rightarrow> jsstring" where
  "substr s start len = take len (drop start s)"

section \<open>Regular expressions, as a backtracking matcher\<close>

text \<open>
  A matcher maps the rest of the input to the list of rests it can leave behind, in the
  order in which a backtracking engine tries them (the greedy choice first). A regular
  expression anchored with \<^verbatim>\<open>^\<close> and without flags is only tried at index 0, and
  \<^verbatim>\<open>test\<close> answers whether some attempt succeeds.
\<close>

type_synonym matcher = "jsstring \<Rightarrow> jsstring list"

text \<open>\<^verbatim>\<open>[...]+\<close>: one or more code units of a class, the longest run first.\<close>

fun plus_class :: "(code_unit \<Rightarrow> bool) \<Rightarrow> matcher" where
  "plus_class p [] = []"
| "plus_class p (c # cs) = (if p c then plus_class p cs @ [cs] else [])"

text \<open>A single literal code unit.\<close>

fun literal :: "code_unit \<Rightarrow> matcher" where
  "literal c [] = []"
| "literal c (x # xs) = (if x = c then [xs] else [])"

text \<open>\<^verbatim>\<open>$\<close> without the multiline flag: the end of the input.\<close>

fun end_of_input :: matcher where
  "end_of_input [] = [Nil]"
| "end_of_input (x # xs) = []"

text \<open>Concatenation of the parts of a pattern.\<close>

fun sequence :: "matcher list \<Rightarrow> matcher" where
  "sequence [] s = [s]"
| "sequence (m # ms) s = concat (map (sequence ms) (m s))"

definition regex_test :: "matcher \<Rightarrow> jsstring \<Rightarrow> bool" where
  "regex_test m s \<longleftrightarrow> m s \<noteq> []"

section \<open>The User entity\<close>

type_synonym date = int  \<comment> \<open>a Date, as milliseconds since the epoch\<close>

record user =
  u_id :: jsstring
  u_email :: jsstring
  u_name :: jsstring
  u_createdAt :: date
  u_updatedAt :: date

datatype storage_failure =
    BackendUnavailable
  | UniqueConstraintViolation
  | RecordNotFound

datatype error =
    Error string                    \<comment> \<open>\<^verbatim>\<open>new Error(message)\<close>, thrown by the entity\<close>
  | ConflictException string        \<comment> \<open>thrown by the use case\<close>
  | StorageError storage_failure    \<comment> \<open>thrown by the storage client\<close>
  | TypeError                       \<comment> \<open>a property read through a reference to no object\<close>

text \<open>The class \<^verbatim>\<open>[^\s@]\<close>.\<close>

definition not_space_or_at :: "code_unit \<Rightarrow> bool" where
  "not_space_or_at c \<longleftrightarrow> \<not> isWhiteSpace c \<and> c \<noteq> 0x40"

text \<open>\<^verbatim>\<open>/^[^\s@]+@[^\s@]+\.[^\s@]+$/\<close>\<close>

definition emailRegex :: matcher where
  "emailRegex =
     sequence [plus_class not_space_or_at, literal 0x40, plus_class not_space_or_at,
               literal 0x2E, plus_class not_space_or_at, end_of_input]"

definition isValidEmail :: "jsstring \<Rightarrow> bool" where
  "isValidEmail email = regex_test emailRegex email"

text \<open>\<^verbatim>\<open>User.validate\<close>: the first failing check throws.\<close>

definition validate :: "user \<Rightarrow> error + unit" where
  "validate this =
     (if falsy (u_id this) \<or> length (trim (u_id this)) = 0 then
        Inl (Error ''User ID cannot be empty'')
      else if falsy (u_email this) \<or> length (trim (u_email this)) = 0 then
        Inl (Error ''User email cannot be empty'')
      else if \<not> isValidEmail (u_email this) then
        Inl (Error ''User email must be a valid email address'')
      else if falsy (u_name this) \<or> length (trim (u_name this)) = 0 then
        Inl (Error ''User name cannot be empty'')
      else if length (u_name this) < 2 then
        Inl (Error ''User name must be at least 2 characters long'')
      else if length (u_name this) > 100 then
        Inl (Error ''User name must not exceed 100 characters'')
      else Inr ())"

section \<open>The environment and the state of a run\<close>

text \<open>
  What the program reads from outside is an oracle indexed by the number of reads made so
  far: the system clock (\<^verbatim>\<open>new Date()\<close>, \<^verbatim>\<open>Date.now()\<close>), the base-36 rendering of
  each random number (\<^verbatim>\<open>Math.random().toString(36)\<close>), and whether the storage
  backend serves a call, and at which time of its own.
\<close>

datatype reply = Unavailable | Served date

record env =
  clock :: "nat \<Rightarrow> date"
  random36 :: "nat \<Rightarrow> jsstring"
  backend :: "nat \<Rightarrow> reply"

text \<open>A row of the \<^verbatim>\<open>users\<close> table.\<close>

record row =
  r_id :: jsstring
  r_email :: jsstring
  r_name :: jsstring
  r_createdAt :: date
  r_updatedAt :: date

text \<open>
  The state: the User objects that a reference can reach (a reference is an index into
  \<open>heap\<close>), the \<^verbatim>\<open>users\<close> table, and how many times each oracle has been read.
\<close>

type_synonym ref = nat

record world =
  heap :: "user list"
  users_table :: "row list"
  clock_reads :: nat
  random_draws :: nat
  backend_calls :: nat

type_synonym 'a io = "world \<Rightarrow> (error + 'a) \<times> world"

definition new_Date :: "env \<Rightarrow> world \<Rightarrow> date \<times> world" where
  "new_Date e w = (clock e (clock_reads w), w\<lparr>clock_reads := Suc (clock_reads w)\<rparr>)"

definition deref :: "world \<Rightarrow> ref \<Rightarrow> user option" where
  "deref w r = (if r < length (heap w) then Some (heap w ! r) else None)"

definition alloc :: "user \<Rightarrow> world \<Rightarrow> ref \<times> world" where
  "alloc u w = (length (heap w), w\<lparr>heap := heap w @ [u]\<rparr>)"

text \<open>
  \<^verbatim>\<open>new User(id, email, name, createdAt = new Date(), updatedAt = new Date())\<close>: the
  defaults are evaluated left to right when the argument is absent, the five fields are
  assigned, then \<^verbatim>\<open>validate\<close> runs. When it throws, \<^verbatim>\<open>new\<close> returns no reference, so
  no object becomes reachable.
\<close>

definition new_User ::
  "env \<Rightarrow> jsstring \<Rightarrow> jsstring \<Rightarrow> jsstring \<Rightarrow> date option \<Rightarrow> date option \<Rightarrow> ref io" where
  "new_User e i em n createdAt updatedAt w =
     (let (c, w1) = (case createdAt of Some t \<Rightarrow> (t, w) | None \<Rightarrow> new_Date e w);
          (u, w2) = (case updatedAt of Some t \<Rightarrow> (t, w1) | None \<Rightarrow> new_Date e w1);
          this = \<lparr>u_id = i, u_email = em, u_name = n, u_createdAt = c, u_updatedAt = u\<rparr>
      in case validate this of
           Inl err \<Rightarrow> (Inl err, w2)
         | Inr _ \<Rightarrow> (let (r, w3) = alloc this w2 in (Inr r, w3)))"

text \<open>\<^verbatim>\<open>User.updateName\<close> and \<^verbatim>\<open>User.updateEmail\<close>, called on the object at \<open>this\<close>.\<close>

definition updateName :: "env \<Rightarrow> ref \<Rightarrow> jsstring \<Rightarrow> ref io" where
  "updateName e this newName w =
     (case deref w this of
        None \<Rightarrow> (Inl TypeError, w)
      | Some self \<Rightarrow>
          (let (now, w1) = new_Date e w
           in new_User e (u_id self) (u_email self) newName
                (Some (u_createdAt self)) (Some now) w1))"

definition updateEmail :: "env \<Rightarrow> ref \<Rightarrow> jsstring \<Rightarrow> ref io" where
  "updateEmail e this newEmail w =
     (case deref w this of
        None \<Rightarrow> (Inl TypeError, w)
      | Some self \<Rightarrow>
          (let (now, w1) = new_Date e w
           in new_User e (u_id self) newEmail (u_name self)
                (Some (u_createdAt self)) (Some now) w1))"

section \<open>Identifier generation\<close>

text \<open>
  The decimal digits of a natural number, and \<^verbatim>\<open>String(n)\<close> for an integral number
  (below \<open>10^21\<close> in magnitude, which every clock reading is).
\<close>

fun digits :: "nat \<Rightarrow> jsstring" where
  "digits n =
     (if n < 10 then [0x30 + of_nat n] else digits (n div 10) @ [0x30 + of_nat (n mod 10)])"

declare digits.simps [simp del]

definition Number_toString :: "int \<Rightarrow> jsstring" where
  "Number_toString n = (if n < 0 then 0x2D # digits (nat (- n)) else digits (nat n))"

definition Date_now :: "env \<Rightarrow> world \<Rightarrow> date \<times> world" where
  "Date_now e w = (clock e (clock_reads w), w\<lparr>clock_reads := Suc (clock_reads w)\<rparr>)"

text \<open>
  \<^verbatim>\<open>Math.random().toString(36)\<close>: the rendering of a floating-point number in
  \<open>[0, 1)\<close> in base 36 is taken from the environment.
\<close>

definition Math_random_toString36 :: "env \<Rightarrow> world \<Rightarrow> jsstring \<times> world" where
  "Math_random_toString36 e w =
     (random36 e (random_draws w), w\<lparr>random_draws := Suc (random_draws w)\<rparr>)"

text \<open>
  \<^verbatim>\<open>CreateUserUseCase.generateId\<close>:
  \<^verbatim>\<open>`user_${Date.now()}_${Math.random().toString(36).substr(2, 9)}`\<close>
\<close>

definition generateId :: "env \<Rightarrow> world \<Rightarrow> jsstring \<times> world" where
  "generateId e w =
     (let (now, w1) = Date_now e w;
          (r, w2) = Math_random_toString36 e w1
      in (str ''user_'' @ Number_toString now @ str ''_'' @ substr r 2 9, w2))"

section \<open>The storage client\<close>

text \<open>
  The repository calls the client that the object-relational mapper generates from the
  schema of the \<^verbatim>\<open>users\<close> table. Every call reaches the backend once, and an unavailable
  backend makes the call throw.
\<close>

definition backend_call :: "env \<Rightarrow> world \<Rightarrow> reply \<times> world" where
  "backend_call e w = (backend e (backend_calls w), w\<lparr>backend_calls := Suc (backend_calls w)\<rparr>)"

text \<open>
  Modelled from the spec: the schema of the \<^verbatim>\<open>users\<close> table is not among the sources; the
  specification gives \<^verbatim>\<open>id\<close> as the primary key and \<^verbatim>\<open>email\<close> as unique, and both
  timestamps as assigned by the backend. \<^verbatim>\<open>create\<close> throws on a duplicate key.
\<close>

definition prisma_user_create :: "env \<Rightarrow> jsstring \<Rightarrow> jsstring \<Rightarrow> jsstring \<Rightarrow> row io" where
  "prisma_user_create e i em n w =
     (case backend_call e w of
        (Unavailable, w1) \<Rightarrow> (Inl (StorageError BackendUnavailable), w1)
      | (Served t, w1) \<Rightarrow>
          if list_ex (\<lambda>r. r_id r = i \<or> r_email r = em) (users_table w1) then
            (Inl (StorageError UniqueConstraintViolation), w1)
          else
            (let created = \<lparr>r_id = i, r_email = em, r_name = n,
                            r_createdAt = t, r_updatedAt = t\<rparr>
             in (Inr created, w1\<lparr>users_table := users_table w1 @ [created]\<rparr>)))"

text \<open>
  Modelled from the spec: \<^verbatim>\<open>findUnique\<close> by one of the two unique columns of the schema;
  it answers \<^verbatim>\<open>null\<close> when no row matches.
\<close>

definition prisma_user_findUnique :: "env \<Rightarrow> (row \<Rightarrow> bool) \<Rightarrow> row option io" where
  "prisma_user_findUnique e wh w =
     (case backend_call e w of
        (Unavailable, w1) \<Rightarrow> (Inl (StorageError BackendUnavailable), w1)
      | (Served t, w1) \<Rightarrow> (Inr (find wh (users_table w1)), w1))"

text \<open>
  Modelled from the spec: \<^verbatim>\<open>findMany\<close> ordered by \<^verbatim>\<open>createdAt\<close>, latest first; rows with
  equal timestamps keep the order of the table here.
\<close>

definition prisma_user_findMany_createdAt_desc :: "env \<Rightarrow> row list io" where
  "prisma_user_findMany_createdAt_desc e w =
     (case backend_call e w of
        (Unavailable, w1) \<Rightarrow> (Inl (StorageError BackendUnavailable), w1)
      | (Served t, w1) \<Rightarrow> (Inr (sort_key (\<lambda>r. - r_createdAt r) (users_table w1)), w1))"

text \<open>
  Modelled from the spec: \<^verbatim>\<open>update\<close> replaces the email and the name of the row with the
  given id and refreshes \<^verbatim>\<open>updatedAt\<close>; it throws when no row matches and when the email
  belongs to another row.
\<close>

definition prisma_user_update :: "env \<Rightarrow> jsstring \<Rightarrow> jsstring \<Rightarrow> jsstring \<Rightarrow> row io" where
  "prisma_user_update e i em n w =
     (case backend_call e w of
        (Unavailable, w1) \<Rightarrow> (Inl (StorageError BackendUnavailable), w1)
      | (Served t, w1) \<Rightarrow>
          (case find (\<lambda>r. r_id r = i) (users_table w1) of
             None \<Rightarrow> (Inl (StorageError RecordNotFound), w1)
           | Some old \<Rightarrow>
               if list_ex (\<lambda>r. r_id r \<noteq> i \<and> r_email r = em) (users_table w1) then
                 (Inl (StorageError UniqueConstraintViolation), w1)
               else
                 (let updated = old\<lparr>r_email := em, r_name := n, r_updatedAt := t\<rparr>
                  in (Inr updated,
                      w1\<lparr>users_table :=
                            map (\<lambda>r. if r_id r = i then updated else r) (users_table w1)\<rparr>))))"

text \<open>
  Modelled from the spec: \<^verbatim>\<open>delete\<close> removes the row with the given id and throws when no
  row matches.
\<close>

definition prisma_user_delete :: "env \<Rightarrow> jsstring \<Rightarrow> row io" where
  "prisma_user_delete e i w =
     (case backend_call e w of
        (Unavailable, w1) \<Rightarrow> (Inl (StorageError BackendUnavailable), w1)
      | (Served t, w1) \<Rightarrow>
          (case find (\<lambda>r. r_id r = i) (users_table w1) of
             None \<Rightarrow> (Inl (StorageError RecordNotFound), w1)
           | Some old \<Rightarrow>
               (Inr old, w1\<lparr>users_table := filter (\<lambda>r. r_id r \<noteq> i) (users_table w1)\<rparr>)))"

section \<open>The repository\<close>

text \<open>Sequencing: a step that throws ends the computation with its error.\<close>

definition and_then :: "'a io \<Rightarrow> ('a \<Rightarrow> 'b io) \<Rightarrow> 'b io" where
  "and_then m f w = (case m w of (Inl err, w1) \<Rightarrow> (Inl err, w1) | (Inr x, w1) \<Rightarrow> f x w1)"

text \<open>The mapping of a row to an entity that every method ends with.\<close>

definition entity_of_row :: "env \<Rightarrow> row \<Rightarrow> ref io" where
  "entity_of_row e r =
     new_User e (r_id r) (r_email r) (r_name r) (Some (r_createdAt r)) (Some (r_updatedAt r))"

definition UserRepository_create :: "env \<Rightarrow> ref \<Rightarrow> ref io" where
  "UserRepository_create e user w =
     (case deref w user of
        None \<Rightarrow> (Inl TypeError, w)
      | Some u \<Rightarrow>
          and_then (prisma_user_create e (u_id u) (u_email u) (u_name u))
            (\<lambda>createdUser. entity_of_row e createdUser) w)"

definition UserRepository_findById :: "env \<Rightarrow> jsstring \<Rightarrow> ref option io" where
  "UserRepository_findById e i =
     and_then (prisma_user_findUnique e (\<lambda>r. r_id r = i))
       (\<lambda>user. case user of
            None \<Rightarrow> (\<lambda>w. (Inr None, w))
          | Some r \<Rightarrow> and_then (entity_of_row e r) (\<lambda>x w. (Inr (Some x), w)))"

definition UserRepository_findByEmail :: "env \<Rightarrow> jsstring \<Rightarrow> ref option io" where
  "UserRepository_findByEmail e em =
     and_then (prisma_user_findUnique e (\<lambda>r. r_email r = em))
       (\<lambda>user. case user of
            None \<Rightarrow> (\<lambda>w. (Inr None, w))
          | Some r \<Rightarrow> and_then (entity_of_row e r) (\<lambda>x w. (Inr (Some x), w)))"

text \<open>\<^verbatim>\<open>users.map((user) => new User(...))\<close>\<close>

fun map_entity_of_row :: "env \<Rightarrow> row list \<Rightarrow> ref list io" where
  "map_entity_of_row e [] w = (Inr [], w)"
| "map_entity_of_row e (r # rs) w =
     and_then (entity_of_row e r)
       (\<lambda>x. and_then (map_entity_of_row e rs) (\<lambda>xs w'. (Inr (x # xs), w'))) w"

definition UserRepository_findAll :: "env \<Rightarrow> ref list io" where
  "UserRepository_findAll e =
     and_then (prisma_user_findMany_createdAt_desc e) (\<lambda>users. map_entity_of_row e users)"

definition UserRepository_update :: "env \<Rightarrow> ref \<Rightarrow> ref io" where
  "UserRepository_update e user w =
     (case deref w user of
        None \<Rightarrow> (Inl TypeError, w)
      | Some u \<Rightarrow>
          and_then (prisma_user_update e (u_id u) (u_email u) (u_name u))
            (\<lambda>updatedUser. entity_of_row e updatedUser) w)"

text \<open>\<^verbatim>\<open>try { await delete; return true } catch (error) { return false }\<close>\<close>

definition UserRepository_delete :: "env \<Rightarrow> jsstring \<Rightarrow> bool io" where
  "UserRepository_delete e i w =
     (case prisma_user_delete e i w of
        (Inr deleted, w1) \<Rightarrow> (Inr True, w1)
      | (Inl err, w1) \<Rightarrow> (Inr False, w1))"

definition UserRepository_existsByEmail :: "env \<Rightarrow> jsstring \<Rightarrow> bool io" where
  "UserRepository_existsByEmail e em =
     and_then (prisma_user_findUnique e (\<lambda>r. r_email r = em))
       (\<lambda>user w. (Inr (user \<noteq> None), w))"

section \<open>The create-user use case\<close>

record create_user_dto =
  dto_email :: jsstring
  dto_name :: jsstring

record user_response =
  res_id :: jsstring
  res_email :: jsstring
  res_name :: jsstring
  res_createdAt :: date
  res_updatedAt :: date

definition UserResponseDto :: "ref \<Rightarrow> user_response io" where
  "UserResponseDto user w =
     (case deref w user of
        None \<Rightarrow> (Inl TypeError, w)
      | Some u \<Rightarrow>
          (Inr \<lparr>res_id = u_id u, res_email = u_email u, res_name = u_name u,
                res_createdAt = u_createdAt u, res_updatedAt = u_updatedAt u\<rparr>, w))"

text \<open>\<^verbatim>\<open>CreateUserUseCase.execute\<close>\<close>

definition execute :: "env \<Rightarrow> create_user_dto \<Rightarrow> user_response io" where
  "execute e createUserDto =
     (let email = dto_email createUserDto; name = dto_name createUserDto
      in and_then (UserRepository_findByEmail e email)
           (\<lambda>existingUser.
              if existingUser \<noteq> None then
                (\<lambda>w. (Inl (ConflictException ''User with this email already exists''), w))
              else
                (\<lambda>w. let (id, w1) = generateId e w
                     in and_then (new_User e id email name None None)
                          (\<lambda>user. and_then (UserRepository_create e user)
                             (\<lambda>createdUser. UserResponseDto createdUser)) w1)))"

section \<open>The specification's vocabulary\<close>

text \<open>
  The six rules of the entity validator in the order the specification lists them, and
  the message of each. Rule 3 is the validator's own pattern test.
\<close>

definition validator_rule :: "nat \<Rightarrow> jsstring \<Rightarrow> jsstring \<Rightarrow> jsstring \<Rightarrow> bool" where
  "validator_rule k i em n =
     (if k = 1 then trim i \<noteq> []
      else if k = 2 then trim em \<noteq> []
      else if k = 3 then isValidEmail em
      else if k = 4 then trim n \<noteq> []
      else if k = 5 then 2 \<le> length n
      else if k = 6 then length n \<le> 100
      else True)"

definition validator_message :: "nat \<Rightarrow> string" where
  "validator_message k =
     (if k = 1 then ''User ID cannot be empty''
      else if k = 2 then ''User email cannot be empty''
      else if k = 3 then ''User email must be a valid email address''
      else if k = 4 then ''User name cannot be empty''
      else if k = 5 then ''User name must be at least 2 characters long''
      else if k = 6 then ''User name must not exceed 100 characters''
      else [])"

definition all_rules :: "jsstring \<Rightarrow> jsstring \<Rightarrow> jsstring \<Rightarrow> bool" where
  "all_rules i em n = list_all (\<lambda>k. validator_rule k i em n) [1, 2, 3, 4, 5, 6]"

text \<open>
  The timestamps a construction ends up with, and the number of clock readings its
  defaults take.
\<close>

definition defaults_read :: "date option \<Rightarrow> date option \<Rightarrow> nat" where
  "defaults_read c u = (if c = None then 1 else 0) + (if u = None then 1 else 0)"

definition createdAt_given :: "env \<Rightarrow> date option \<Rightarrow> world \<Rightarrow> date" where
  "createdAt_given e c w = (case c of Some t \<Rightarrow> t | None \<Rightarrow> clock e (clock_reads w))"

definition updatedAt_given :: "env \<Rightarrow> date option \<Rightarrow> date option \<Rightarrow> world \<Rightarrow> date" where
  "updatedAt_given e c u w =
     (case u of Some t \<Rightarrow> t
      | None \<Rightarrow> clock e (clock_reads w + (if c = None then 1 else 0)))"

text \<open>A concrete environment and the initial state, for the examples.\<close>

definition env0 :: env where
  "env0 = \<lparr>clock = (\<lambda>k. 1700000000000 + int k), random36 = (\<lambda>k. str ''0.4fzyo82mvyr''),
           backend = (\<lambda>k. Served (1700000000500 + int k))\<rparr>"

definition world0 :: world where
  "world0 = \<lparr>heap = [], users_table = [], clock_reads = 0, random_draws = 0,
             backend_calls = 0\<rparr>"

text \<open>
  The pattern in the specification's words: three runs of non-space characters separated
  by \<open>@\<close> and then by a dot.
\<close>

definition not_space :: "code_unit \<Rightarrow> bool" where
  "not_space c \<longleftrightarrow> \<not> isWhiteSpace c"

definition spec_email_pattern :: "jsstring \<Rightarrow> bool" where
  "spec_email_pattern em =
     regex_test (sequence [plus_class not_space, literal 0x40, plus_class not_space,
                           literal 0x2E, plus_class not_space, end_of_input]) em"

text \<open>
  The identifier format in the specification's words: the prefix, the epoch milliseconds,
  an underscore, and exactly nine base-36 characters.
\<close>

definition is_base36 :: "code_unit \<Rightarrow> bool" where
  "is_base36 c \<longleftrightarrow> (0x30 \<le> c \<and> c \<le> 0x39) \<or> (0x61 \<le> c \<and> c \<le> 0x7A)"

definition spec_id_format :: "date \<Rightarrow> jsstring \<Rightarrow> bool" where
  "spec_id_format now s =
     (let p = str ''user_'' @ Number_toString now @ str ''_''
      in take (length p) s = p \<and> length (drop (length p) s) = 9 \<and>
         list_all is_base36 (drop (length p) s))"

text \<open>
  The renderings \<^verbatim>\<open>toString(36)\<close> gives for a number in \<open>[0, 1)\<close>: \<open>0\<close>, or \<open>0.\<close>
  followed by base-36 digits. One half is \<open>18/36\<close> and renders as \<open>0.i\<close>.
\<close>

definition radix36_fraction :: "jsstring \<Rightarrow> bool" where
  "radix36_fraction r \<longleftrightarrow>
     r = str ''0'' \<or> (take 2 r = str ''0.'' \<and> drop 2 r \<noteq> [] \<and> list_all is_base36 (drop 2 r))"

definition env_half :: env where
  "env_half = env0\<lparr>random36 := (\<lambda>k. str ''0.i'')\<rparr>"

text \<open>A user that satisfies the six rules, and a state that holds one.\<close>

definition valid_user :: "user \<Rightarrow> bool" where
  "valid_user u = all_rules (u_id u) (u_email u) (u_name u)"

definition john :: user where
  "john = \<lparr>u_id = str ''u1'', u_email = str ''a@b.com'', u_name = str ''John'',
           u_createdAt = 1600000000000, u_updatedAt = 1600000000000\<rparr>"

definition world1 :: world where
  "world1 = world0\<lparr>heap := [john]\<rparr>"

text \<open>The entity that the repository builds from a row.\<close>

definition user_of_row :: "row \<Rightarrow> user" where
  "user_of_row r = \<lparr>u_id = r_id r, u_email = r_email r, u_name = r_name r,
                    u_createdAt = r_createdAt r, u_updatedAt = r_updatedAt r\<rparr>"

text \<open>A stored user, a request for the same email, and a backend that is down.\<close>

definition row1 :: row where
  "row1 = \<lparr>r_id = str ''u1'', r_email = str ''a@b.com'', r_name = str ''John'',
           r_createdAt = 1600000000000, r_updatedAt = 1600000000000\<rparr>"

definition world2 :: world where
  "world2 = world0\<lparr>users_table := [row1]\<rparr>"

definition dto0 :: create_user_dto where
  "dto0 = \<lparr>dto_email = str ''a@b.com'', dto_name = str ''Johnny''\<rparr>"

definition env_down :: env where
  "env_down = env0\<lparr>backend := (\<lambda>k. Unavailable)\<rparr>"

text \<open>A stored row whose name has one character.\<close>

definition row_j :: row where
  "row_j = \<lparr>r_id = str ''u2'', r_email = str ''a@b.com'', r_name = str ''J'',
            r_createdAt = 1600000000000, r_updatedAt = 1600000000000\<rparr>"

definition world_j :: world where
  "world_j = world0\<lparr>users_table := [row_j]\<rparr>"

text \<open>
  The references an operation returns, and what it means for an operation started in a
  state to produce only valid users: it leaves the objects of the heap as they are, every
  object it adds satisfies the six rules, and every reference it returns points to an
  object it added.
\<close>

definition one_ref :: "ref \<Rightarrow> ref list" where
  "one_ref r = [r]"

definition opt_ref :: "ref option \<Rightarrow> ref list" where
  "opt_ref x = (case x of None \<Rightarrow> [] | Some r \<Rightarrow> [r])"

definition no_ref :: "'a \<Rightarrow> ref list" where
  "no_ref x = []"

definition produces_valid_users :: "('a \<Rightarrow> ref list) \<Rightarrow> 'a io \<Rightarrow> world \<Rightarrow> bool" where
  "produces_valid_users refs m w =
     (let w' = snd (m w); old = length (heap w)
      in take old (heap w') = heap w \<and>
         list_all valid_user (drop old (heap w')) \<and>
         (case fst (m w) of
            Inl err \<Rightarrow> True
          | Inr x \<Rightarrow> list_all (\<lambda>r. old \<le> r \<and> r < length (heap w')) (refs x)))"

text \<open>The states that a successful run of the use case goes through.\<close>

definition generated_id :: jsstring where
  "generated_id = str ''user_1700000000000_4fzyo82mv''"

definition johnny :: "date \<Rightarrow> date \<Rightarrow> user" where
  "johnny c u = \<lparr>u_id = generated_id, u_email = str ''a@b.com'', u_name = str ''Johnny'',
                 u_createdAt = c, u_updatedAt = u\<rparr>"

definition johnny_row :: row where
  "johnny_row = \<lparr>r_id = generated_id, r_email = str ''a@b.com'', r_name = str ''Johnny'',
                 r_createdAt = 1700000000501, r_updatedAt = 1700000000501\<rparr>"

definition after_lookup :: world where
  "after_lookup = world0\<lparr>backend_calls := 1\<rparr>"

definition after_generateId :: world where
  "after_generateId = after_lookup\<lparr>clock_reads := 1, random_draws := 1\<rparr>"

definition after_new_User :: world where
  "after_new_User =
     after_generateId\<lparr>clock_reads := 3, heap := [johnny 1700000000001 1700000000002]\<rparr>"

definition after_create :: world where
  "after_create =
     after_new_User\<lparr>backend_calls := 2, users_table := [johnny_row],
       heap := [johnny 1700000000001 1700000000002, johnny 1700000000501 1700000000501]\<rparr>"

section \<open>Properties of the entity validator\<close>

lemma falsy_trim: "falsy s \<or> length (trim s) = 0 \<longleftrightarrow> trim s = []"
  by (auto simp: falsy_def trim_def)

lemma validate_eq:
  "validate this =
     (if trim (u_id this) = [] then Inl (Error ''User ID cannot be empty'')
      else if trim (u_email this) = [] then Inl (Error ''User email cannot be empty'')
      else if \<not> isValidEmail (u_email this) then
        Inl (Error ''User email must be a valid email address'')
      else if trim (u_name this) = [] then Inl (Error ''User name cannot be empty'')
      else if length (u_name this) < 2 then
        Inl (Error ''User name must be at least 2 characters long'')
      else if length (u_name this) > 100 then
        Inl (Error ''User name must not exceed 100 characters'')
      else Inr ())"
  unfolding validate_def falsy_trim by (rule refl)

lemma new_User_eq:
  "new_User e i em n c u w =
     (let this = \<lparr>u_id = i, u_email = em, u_name = n,
                  u_createdAt = createdAt_given e c w, u_updatedAt = updatedAt_given e c u w\<rparr>;
          w2 = w\<lparr>clock_reads := clock_reads w + defaults_read c u\<rparr>
      in case validate this of
           Inl err \<Rightarrow> (Inl err, w2)
         | Inr _ \<Rightarrow> (Inr (length (heap w)), w2\<lparr>heap := heap w @ [this]\<rparr>))"
  by (cases c; cases u)
     (simp_all add: new_User_def new_Date_def alloc_def defaults_read_def
        createdAt_given_def updatedAt_given_def Let_def split: sum.splits)

lemma all_rules_iff:
  "all_rules i em n \<longleftrightarrow>
     trim i \<noteq> [] \<and> trim em \<noteq> [] \<and> isValidEmail em \<and> trim n \<noteq> [] \<and>
     2 \<le> length n \<and> length n \<le> 100"
  by (simp add: all_rules_def validator_rule_def)

lemma validate_ok_iff:
  "validate this = Inr () \<longleftrightarrow> all_rules (u_id this) (u_email this) (u_name this)"
  by (auto simp: validate_eq all_rules_iff)

lemma isValidEmail_example: "isValidEmail (str ''a@b.com'')"
  by (simp add: isValidEmail_def regex_test_def emailRegex_def str_def not_space_or_at_def
      isWhiteSpace_def)

lemma trim_examples:
  "trim (str ''u1'') \<noteq> []" "trim (str ''a@b.com'') \<noteq> []"
  "trim (str ''J'') \<noteq> []" "trim (str '' J'') = str ''J''"
  by (simp_all add: trim_def str_def isWhiteSpace_def)

text \<open>
  C2. An input that violates rule \<open>k\<close> and satisfies the rules before it makes the
  construction fail with the message of rule \<open>k\<close>, which is the message of no other
  rule, and no object is created. The rules are tried in the order 1 to 6, so that a name
  of one visible character fails rule 5 and not rule 4.
\<close>

theorem first_failing_rule:
  assumes k: "1 \<le> k" "k \<le> 6"
    and bad: "\<not> validator_rule k i em n"
    and good: "\<forall>j. 1 \<le> j \<and> j < k \<longrightarrow> validator_rule j i em n"
  shows "fst (new_User e i em n c u w) = Inl (Error (validator_message k)) \<and>
         heap (snd (new_User e i em n c u w)) = heap w \<and>
         (\<forall>j. 1 \<le> j \<and> j \<le> 6 \<and> j \<noteq> k \<longrightarrow> validator_message j \<noteq> validator_message k)"
proof -
  from k have ks: "k = 1 \<or> k = 2 \<or> k = 3 \<or> k = 4 \<or> k = 5 \<or> k = 6" by arith
  then have v: "validate \<lparr>u_id = i, u_email = em, u_name = n,
                  u_createdAt = createdAt_given e c w, u_updatedAt = updatedAt_given e c u w\<rparr>
         = Inl (Error (validator_message k))"
  proof (elim disjE)
    assume "k = 1"
    with bad show ?thesis by (simp add: validate_eq validator_rule_def validator_message_def)
  next
    assume "k = 2"
    moreover from good \<open>k = 2\<close> have "validator_rule 1 i em n" by simp
    ultimately show ?thesis using bad
      by (simp add: validate_eq validator_rule_def validator_message_def)
  next
    assume "k = 3"
    moreover from good \<open>k = 3\<close> have "validator_rule 1 i em n" "validator_rule 2 i em n"
      by simp_all
    ultimately show ?thesis using bad
      by (simp add: validate_eq validator_rule_def validator_message_def)
  next
    assume "k = 4"
    moreover from good \<open>k = 4\<close> have "validator_rule 1 i em n" "validator_rule 2 i em n"
      "validator_rule 3 i em n" by simp_all
    ultimately show ?thesis using bad
      by (simp add: validate_eq validator_rule_def validator_message_def)
  next
    assume "k = 5"
    moreover from good \<open>k = 5\<close> have "validator_rule 1 i em n" "validator_rule 2 i em n"
      "validator_rule 3 i em n" "validator_rule 4 i em n" by simp_all
    ultimately show ?thesis using bad
      by (simp add: validate_eq validator_rule_def validator_message_def)
  next
    assume "k = 6"
    moreover from good \<open>k = 6\<close> have "validator_rule 1 i em n" "validator_rule 2 i em n"
      "validator_rule 3 i em n" "validator_rule 4 i em n" "validator_rule 5 i em n"
      by simp_all
    ultimately show ?thesis using bad
      by (simp add: validate_eq validator_rule_def validator_message_def)
  qed
  have m: "\<forall>j. 1 \<le> j \<and> j \<le> 6 \<and> j \<noteq> k \<longrightarrow> validator_message j \<noteq> validator_message k"
    using ks by (auto simp: validator_message_def)
  from v m show ?thesis by (simp add: new_User_eq Let_def)
qed

text \<open>
  The name \<open>J\<close> has length 1 and is not blank: it passes rule 4 and fails rule 5.
\<close>

theorem first_failing_rule_witness:
  "length (str ''J'') = 1 \<and>
   validator_rule 4 (str ''u1'') (str ''a@b.com'') (str ''J'') \<and>
   \<not> validator_rule 5 (str ''u1'') (str ''a@b.com'') (str ''J'') \<and>
   fst (new_User env0 (str ''u1'') (str ''a@b.com'') (str ''J'') None None world0)
     = Inl (Error ''User name must be at least 2 characters long'')"
proof -
  have 1: "(1::nat) \<le> 5" "(5::nat) \<le> 6" by simp_all
  have 2: "\<not> validator_rule 5 (str ''u1'') (str ''a@b.com'') (str ''J'')"
    by (simp add: validator_rule_def str_def)
  have 3: "\<forall>j. 1 \<le> j \<and> j < 5 \<longrightarrow> validator_rule j (str ''u1'') (str ''a@b.com'') (str ''J'')"
    using isValidEmail_example by (simp add: validator_rule_def trim_examples)
  from 3 have 4: "validator_rule 4 (str ''u1'') (str ''a@b.com'') (str ''J'')" by simp
  from first_failing_rule [OF 1 2 3, of env0 None None world0] 2 4
  show ?thesis by (simp add: validator_message_def str_def)
qed

subsection \<open>What the matchers accept\<close>

lemma plus_class_iff:
  "r \<in> set (plus_class p s) \<longleftrightarrow> (\<exists>a. a \<noteq> [] \<and> list_all p a \<and> s = a @ r)"
proof (induction s)
  case Nil
  then show ?case by simp
next
  case (Cons c cs)
  show ?case
  proof (cases "p c")
    case False
    then show ?thesis by (auto simp: Cons_eq_append_conv)
  next
    case True
    show ?thesis
    proof
      assume "r \<in> set (plus_class p (c # cs))"
      with True have "r \<in> set (plus_class p cs) \<or> r = cs" by auto
      then show "\<exists>a. a \<noteq> [] \<and> list_all p a \<and> c # cs = a @ r"
      proof
        assume "r \<in> set (plus_class p cs)"
        with Cons.IH obtain a where "a \<noteq> []" "list_all p a" "cs = a @ r" by blast
        with True have "c # a \<noteq> [] \<and> list_all p (c # a) \<and> c # cs = (c # a) @ r" by simp
        then show ?thesis by blast
      next
        assume "r = cs"
        with True have "[c] \<noteq> [] \<and> list_all p [c] \<and> c # cs = [c] @ r" by simp
        then show ?thesis by blast
      qed
    next
      assume "\<exists>a. a \<noteq> [] \<and> list_all p a \<and> c # cs = a @ r"
      then obtain a where a: "a \<noteq> []" "list_all p a" "c # cs = a @ r" by blast
      then obtain a' where a': "a = c # a'" by (cases a) auto
      show "r \<in> set (plus_class p (c # cs))"
      proof (cases "a' = []")
        case True
        with a a' \<open>p c\<close> show ?thesis by simp
      next
        case False
        with a a' have "a' \<noteq> [] \<and> list_all p a' \<and> cs = a' @ r" by simp
        with Cons.IH have "r \<in> set (plus_class p cs)" by blast
        with \<open>p c\<close> show ?thesis by simp
      qed
    qed
  qed
qed

lemma literal_iff: "r \<in> set (literal c s) \<longleftrightarrow> s = c # r"
  by (cases s) auto

lemma end_of_input_iff: "r \<in> set (end_of_input s) \<longleftrightarrow> s = [] \<and> r = []"
  by (cases s) auto

lemma three_segments_iff:
  "regex_test (sequence [plus_class p, literal 0x40, plus_class p, literal 0x2E,
                         plus_class p, end_of_input]) s \<longleftrightarrow>
     (\<exists>a b c. a \<noteq> [] \<and> b \<noteq> [] \<and> c \<noteq> [] \<and> list_all p a \<and> list_all p b \<and> list_all p c \<and>
        s = a @ [0x40] @ b @ [0x2E] @ c)"
proof -
  let ?m = "sequence [plus_class p, literal 0x40, plus_class p, literal 0x2E,
                      plus_class p, end_of_input]"
  have "regex_test ?m s \<longleftrightarrow> (\<exists>r. r \<in> set (?m s))"
    unfolding regex_test_def by (cases "?m s") auto
  also have "\<dots> \<longleftrightarrow> (\<exists>r1 r2 r3 r4 r5.
      r1 \<in> set (plus_class p s) \<and> r2 \<in> set (literal 0x40 r1) \<and>
      r3 \<in> set (plus_class p r2) \<and> r4 \<in> set (literal 0x2E r3) \<and>
      r5 \<in> set (plus_class p r4) \<and> r5 = [])"
    by (auto simp: end_of_input_iff)
  also have "\<dots> \<longleftrightarrow> (\<exists>a b c. a \<noteq> [] \<and> b \<noteq> [] \<and> c \<noteq> [] \<and>
        list_all p a \<and> list_all p b \<and> list_all p c \<and> s = a @ [0x40] @ b @ [0x2E] @ c)"
    unfolding plus_class_iff literal_iff by auto
  finally show ?thesis .
qed

lemma isValidEmail_iff:
  "isValidEmail em \<longleftrightarrow>
     (\<exists>a b c. a \<noteq> [] \<and> b \<noteq> [] \<and> c \<noteq> [] \<and>
        list_all not_space_or_at a \<and> list_all not_space_or_at b \<and> list_all not_space_or_at c \<and>
        em = a @ [0x40] @ b @ [0x2E] @ c)"
  unfolding isValidEmail_def emailRegex_def by (rule three_segments_iff)

lemma spec_email_pattern_iff:
  "spec_email_pattern em \<longleftrightarrow>
     (\<exists>a b c. a \<noteq> [] \<and> b \<noteq> [] \<and> c \<noteq> [] \<and>
        list_all not_space a \<and> list_all not_space b \<and> list_all not_space c \<and>
        em = a @ [0x40] @ b @ [0x2E] @ c)"
  unfolding spec_email_pattern_def by (rule three_segments_iff)

text \<open>
  C4, as stated, fails: \<open>a@b@c.d\<close> is three non-space runs separated by \<open>@\<close> and a
  dot (\<open>a\<close>, \<open>b@c\<close>, \<open>d\<close>), and the validator rejects it, since its runs exclude
  \<open>@\<close> as well.
\<close>

theorem email_pattern_counterexample:
  "trim (str ''a@b@c.d'') \<noteq> [] \<and>
   spec_email_pattern (str ''a@b@c.d'') \<and>
   \<not> isValidEmail (str ''a@b@c.d'') \<and>
   fst (new_User env0 (str ''u1'') (str ''a@b@c.d'') (str ''Jo'') None None world0)
     = Inl (Error ''User email must be a valid email address'')"
  by (simp add: new_User_eq validate_eq Let_def trim_def str_def isWhiteSpace_def
      spec_email_pattern_def isValidEmail_def emailRegex_def regex_test_def
      not_space_def not_space_or_at_def)

text \<open>
  C4, amended. The validator's test accepts exactly the strings made of three non-empty
  runs of characters that are neither whitespace nor \<open>@\<close>, the first two separated by
  \<open>@\<close> and the last two by a dot. With an id and an email that are not blank,
  construction fails with the message of the email pattern exactly when the test rejects.
\<close>

theorem email_pattern:
  assumes "trim i \<noteq> []" and "trim em \<noteq> []"
  shows "(isValidEmail em \<longleftrightarrow>
            (\<exists>a b c. a \<noteq> [] \<and> b \<noteq> [] \<and> c \<noteq> [] \<and>
               list_all not_space_or_at a \<and> list_all not_space_or_at b \<and>
               list_all not_space_or_at c \<and> em = a @ [0x40] @ b @ [0x2E] @ c)) \<and>
         (fst (new_User e i em n c u w) = Inl (Error ''User email must be a valid email address'')
            \<longleftrightarrow> \<not> isValidEmail em)"
proof -
  have "fst (new_User e i em n c u w) = Inl (Error ''User email must be a valid email address'')
            \<longleftrightarrow> \<not> isValidEmail em"
    using assms by (simp add: new_User_eq validate_eq Let_def)
  with isValidEmail_iff [of em] show ?thesis by blast
qed

theorem email_pattern_witness:
  "trim (str ''u1'') \<noteq> [] \<and> trim (str ''a@b.com'') \<noteq> [] \<and>
   isValidEmail (str ''a@b.com'') \<and>
   fst (new_User env0 (str ''u1'') (str ''a@b.com'') (str ''Jo'') None None world0)
     \<noteq> Inl (Error ''User email must be a valid email address'')"
  using email_pattern [OF trim_examples(1) trim_examples(2),
      of env0 "str ''Jo''" None None world0]
    isValidEmail_example trim_examples by simp

text \<open>
  C3. When the six rules hold, construction succeeds and the new object holds the id, the
  email and the name as they were given, untrimmed.
\<close>

theorem construction_keeps_fields:
  assumes "all_rules i em n"
  shows "fst (new_User e i em n c u w) = Inr (length (heap w)) \<and>
         deref (snd (new_User e i em n c u w)) (length (heap w)) =
           Some \<lparr>u_id = i, u_email = em, u_name = n,
                 u_createdAt = createdAt_given e c w, u_updatedAt = updatedAt_given e c u w\<rparr>"
proof -
  from assms have "validate \<lparr>u_id = i, u_email = em, u_name = n,
      u_createdAt = createdAt_given e c w, u_updatedAt = updatedAt_given e c u w\<rparr> = Inr ()"
    by (simp add: validate_ok_iff)
  then show ?thesis by (simp add: new_User_eq Let_def deref_def)
qed

lemma all_rules_example: "all_rules (str ''u1'') (str ''a@b.com'') (str '' Jo '')"
  using isValidEmail_example
  by (simp add: all_rules_iff trim_examples) (simp add: trim_def str_def isWhiteSpace_def)

theorem construction_keeps_fields_witness:
  "all_rules (str ''u1'') (str ''a@b.com'') (str '' Jo '') \<and>
   fst (new_User env0 (str ''u1'') (str ''a@b.com'') (str '' Jo '') None None world0) = Inr 0 \<and>
   deref (snd (new_User env0 (str ''u1'') (str ''a@b.com'') (str '' Jo '') None None world0)) 0 =
     Some \<lparr>u_id = str ''u1'', u_email = str ''a@b.com'', u_name = str '' Jo '',
           u_createdAt = 1700000000000, u_updatedAt = 1700000000001\<rparr>"
  using construction_keeps_fields [OF all_rules_example, of env0 None None world0]
    all_rules_example
  by (simp add: world0_def env0_def createdAt_given_def updatedAt_given_def)



section \<open>Properties of the identifier generator\<close>

lemma digits_small: "n < 10 \<Longrightarrow> digits n = [0x30 + of_nat n]"
  by (simp add: digits.simps)

lemma digits_step: "10 \<le> n \<Longrightarrow> digits n = digits (n div 10) @ [0x30 + of_nat (n mod 10)]"
  by (subst digits.simps) simp

lemma Number_toString_example:
  "Number_toString 1700000000000 = str ''1700000000000''"
  by (simp add: Number_toString_def digits_step digits_small str_def)

lemma generateId_eq:
  "generateId e w =
     (str ''user_'' @ Number_toString (clock e (clock_reads w)) @ str ''_'' @
        substr (random36 e (random_draws w)) 2 9,
      w\<lparr>clock_reads := Suc (clock_reads w), random_draws := Suc (random_draws w)\<rparr>)"
  by (simp add: generateId_def Date_now_def Math_random_toString36_def)

lemma generateId_half: "fst (generateId env_half world0) = str ''user_1700000000000_i''"
  by (simp add: generateId_eq env_half_def env0_def world0_def substr_def
      Number_toString_example)
     (simp add: str_def)

text \<open>
  C7, as stated, fails. When the random number is one half, its rendering is \<open>0.i\<close> and
  the identifier ends in the single character \<open>i\<close>, not in nine.
\<close>

theorem generated_id_format_counterexample:
  "fst (generateId env_half world0) = str ''user_1700000000000_i'' \<and>
   \<not> spec_id_format 1700000000000 (fst (generateId env_half world0))"
  unfolding generateId_half
  by (simp add: spec_id_format_def Let_def Number_toString_example) (simp add: str_def)

text \<open>
  C7, amended. An identifier is \<open>user_\<close>, the decimal epoch milliseconds, an
  underscore, and the characters at positions 2 to 10 of the base-36 rendering of the
  random number: at most nine characters, all of them base-36 digits, and exactly nine
  when the rendering has at least nine digits after \<open>0.\<close>; the identifier then has the
  format of the specification.
\<close>

theorem generated_id_format:
  "fst (generateId e w) =
     str ''user_'' @ Number_toString (clock e (clock_reads w)) @ str ''_'' @
       substr (random36 e (random_draws w)) 2 9 \<and>
   length (substr (random36 e (random_draws w)) 2 9) \<le> 9 \<and>
   (length (substr (random36 e (random_draws w)) 2 9) = 9
      \<longleftrightarrow> 11 \<le> length (random36 e (random_draws w))) \<and>
   (radix36_fraction (random36 e (random_draws w)) \<longrightarrow>
      list_all is_base36 (substr (random36 e (random_draws w)) 2 9)) \<and>
   (radix36_fraction (random36 e (random_draws w)) \<and> 11 \<le> length (random36 e (random_draws w))
      \<longrightarrow> spec_id_format (clock e (clock_reads w)) (fst (generateId e w)))"
proof -
  let ?r = "random36 e (random_draws w)"
  have b: "radix36_fraction ?r \<longrightarrow> list_all is_base36 (substr ?r 2 9)"
  proof
    assume "radix36_fraction ?r"
    then have "list_all is_base36 (drop 2 ?r)"
      by (auto simp: radix36_fraction_def str_def)
    then show "list_all is_base36 (substr ?r 2 9)"
      unfolding substr_def list_all_iff by (auto dest: in_set_takeD)
  qed
  have l: "length (substr ?r 2 9) = 9 \<longleftrightarrow> 11 \<le> length ?r"
    by (auto simp: substr_def)
  have l2: "length (substr ?r 2 9) \<le> 9"
    by (simp add: substr_def)
  have f: "radix36_fraction ?r \<and> 11 \<le> length ?r
      \<longrightarrow> spec_id_format (clock e (clock_reads w)) (fst (generateId e w))"
    using b l by (simp add: generateId_eq spec_id_format_def Let_def)
  from b l l2 f show ?thesis
    by (simp add: generateId_eq)
qed

theorem generated_id_format_witness:
  "radix36_fraction (str ''0.4fzyo82mvyr'') \<and> 11 \<le> length (str ''0.4fzyo82mvyr'') \<and>
   fst (generateId env0 world0) = str ''user_1700000000000_4fzyo82mv'' \<and>
   spec_id_format 1700000000000 (fst (generateId env0 world0))"
proof -
  have r: "radix36_fraction (str ''0.4fzyo82mvyr'')" "11 \<le> length (str ''0.4fzyo82mvyr'')"
    by (simp_all add: radix36_fraction_def str_def is_base36_def)
  have i: "fst (generateId env0 world0) = str ''user_1700000000000_4fzyo82mv''"
    by (simp add: generateId_eq env0_def world0_def substr_def Number_toString_example)
       (simp add: str_def)
  have c: "clock env0 (clock_reads world0) = 1700000000000"
    "random36 env0 (random_draws world0) = str ''0.4fzyo82mvyr''"
    by (simp_all add: env0_def world0_def)
  from generated_id_format [of env0 world0] r i show ?thesis
    unfolding c by blast
qed

section \<open>Properties of the derived updates\<close>

lemma validate_name_update:
  "validate (self\<lparr>u_name := n, u_updatedAt := t\<rparr>) = validate (self\<lparr>u_name := n\<rparr>)"
  "validate (self\<lparr>u_email := em, u_updatedAt := t\<rparr>) = validate (self\<lparr>u_email := em\<rparr>)"
  by (simp_all add: validate_eq)

lemma updateName_eq:
  assumes "deref w this = Some self"
  shows "updateName e this n w =
     (case validate (self\<lparr>u_name := n\<rparr>) of
        Inl err \<Rightarrow> (Inl err, w\<lparr>clock_reads := Suc (clock_reads w)\<rparr>)
      | Inr _ \<Rightarrow>
          (Inr (length (heap w)),
           w\<lparr>clock_reads := Suc (clock_reads w),
             heap := heap w @ [self\<lparr>u_name := n, u_updatedAt := clock e (clock_reads w)\<rparr>]\<rparr>))"
proof -
  have r: "\<lparr>u_id = u_id self, u_email = u_email self, u_name = n,
            u_createdAt = u_createdAt self, u_updatedAt = clock e (clock_reads w)\<rparr>
          = self\<lparr>u_name := n, u_updatedAt := clock e (clock_reads w)\<rparr>"
    by (cases self) simp
  show ?thesis
    using assms
    by (simp add: updateName_def new_Date_def new_User_eq Let_def defaults_read_def
        createdAt_given_def updatedAt_given_def r validate_name_update split: sum.splits)
qed

lemma updateEmail_eq:
  assumes "deref w this = Some self"
  shows "updateEmail e this em w =
     (case validate (self\<lparr>u_email := em\<rparr>) of
        Inl err \<Rightarrow> (Inl err, w\<lparr>clock_reads := Suc (clock_reads w)\<rparr>)
      | Inr _ \<Rightarrow>
          (Inr (length (heap w)),
           w\<lparr>clock_reads := Suc (clock_reads w),
             heap := heap w @ [self\<lparr>u_email := em, u_updatedAt := clock e (clock_reads w)\<rparr>]\<rparr>))"
proof -
  have r: "\<lparr>u_id = u_id self, u_email = em, u_name = u_name self,
            u_createdAt = u_createdAt self, u_updatedAt = clock e (clock_reads w)\<rparr>
          = self\<lparr>u_email := em, u_updatedAt := clock e (clock_reads w)\<rparr>"
    by (cases self) simp
  show ?thesis
    using assms
    by (simp add: updateEmail_def new_Date_def new_User_eq Let_def defaults_read_def
        createdAt_given_def updatedAt_given_def r validate_name_update split: sum.splits)
qed

lemma deref_append: "deref w r = Some u \<Longrightarrow> deref (w\<lparr>clock_reads := k, heap := heap w @ ys\<rparr>) r = Some u"
  by (auto simp: deref_def nth_append split: if_splits)

text \<open>
  C8. For a valid user \<open>self\<close> at the reference \<open>this\<close>: a new name that passes the
  name rules, or a new email that passes the email rules, gives a new object at a fresh
  reference, with the updated field set to the candidate, the other fields (the id and
  \<open>createdAt\<close> among them) taken from \<open>self\<close>, and \<open>updatedAt\<close> set to the clock reading
  of the call. The whole validator runs on the candidate object: when it rejects, the
  update fails with its error and no object is created. In every case the object at
  \<open>this\<close> is what it was.
\<close>

theorem derived_updates:
  assumes self: "deref w this = Some self" and valid: "validate self = Inr ()"
  shows
    "(trim n \<noteq> [] \<and> 2 \<le> length n \<and> length n \<le> 100 \<longrightarrow>
        updateName e this n w =
          (Inr (length (heap w)),
           w\<lparr>clock_reads := Suc (clock_reads w),
             heap := heap w @ [self\<lparr>u_name := n, u_updatedAt := clock e (clock_reads w)\<rparr>]\<rparr>)) \<and>
     (trim em \<noteq> [] \<and> isValidEmail em \<longrightarrow>
        updateEmail e this em w =
          (Inr (length (heap w)),
           w\<lparr>clock_reads := Suc (clock_reads w),
             heap := heap w @ [self\<lparr>u_email := em, u_updatedAt := clock e (clock_reads w)\<rparr>]\<rparr>)) \<and>
     (\<forall>err. validate (self\<lparr>u_name := n\<rparr>) = Inl err \<longrightarrow>
        updateName e this n w = (Inl err, w\<lparr>clock_reads := Suc (clock_reads w)\<rparr>)) \<and>
     (\<forall>err. validate (self\<lparr>u_email := em\<rparr>) = Inl err \<longrightarrow>
        updateEmail e this em w = (Inl err, w\<lparr>clock_reads := Suc (clock_reads w)\<rparr>)) \<and>
     this \<noteq> length (heap w) \<and>
     deref (snd (updateName e this n w)) this = Some self \<and>
     deref (snd (updateEmail e this em w)) this = Some self"
proof -
  from valid have v: "trim (u_id self) \<noteq> []" "trim (u_email self) \<noteq> []"
    "isValidEmail (u_email self)" "trim (u_name self) \<noteq> []"
    "2 \<le> length (u_name self)" "length (u_name self) \<le> 100"
    by (simp_all add: validate_ok_iff all_rules_iff)
  have 1: "trim n \<noteq> [] \<and> 2 \<le> length n \<and> length n \<le> 100 \<longrightarrow>
        updateName e this n w =
          (Inr (length (heap w)),
           w\<lparr>clock_reads := Suc (clock_reads w),
             heap := heap w @ [self\<lparr>u_name := n, u_updatedAt := clock e (clock_reads w)\<rparr>]\<rparr>)"
  proof
    assume "trim n \<noteq> [] \<and> 2 \<le> length n \<and> length n \<le> 100"
    with v have "validate (self\<lparr>u_name := n\<rparr>) = Inr ()" by (simp add: validate_eq)
    then show "updateName e this n w =
          (Inr (length (heap w)),
           w\<lparr>clock_reads := Suc (clock_reads w),
             heap := heap w @ [self\<lparr>u_name := n, u_updatedAt := clock e (clock_reads w)\<rparr>]\<rparr>)"
      by (simp add: updateName_eq [OF self])
  qed
  have 2: "trim em \<noteq> [] \<and> isValidEmail em \<longrightarrow>
        updateEmail e this em w =
          (Inr (length (heap w)),
           w\<lparr>clock_reads := Suc (clock_reads w),
             heap := heap w @ [self\<lparr>u_email := em, u_updatedAt := clock e (clock_reads w)\<rparr>]\<rparr>)"
  proof
    assume "trim em \<noteq> [] \<and> isValidEmail em"
    with v have "validate (self\<lparr>u_email := em\<rparr>) = Inr ()" by (simp add: validate_eq)
    then show "updateEmail e this em w =
          (Inr (length (heap w)),
           w\<lparr>clock_reads := Suc (clock_reads w),
             heap := heap w @ [self\<lparr>u_email := em, u_updatedAt := clock e (clock_reads w)\<rparr>]\<rparr>)"
      by (simp add: updateEmail_eq [OF self])
  qed
  have 3: "\<forall>err. validate (self\<lparr>u_name := n\<rparr>) = Inl err \<longrightarrow>
        updateName e this n w = (Inl err, w\<lparr>clock_reads := Suc (clock_reads w)\<rparr>)"
    by (simp add: updateName_eq [OF self])
  have 4: "\<forall>err. validate (self\<lparr>u_email := em\<rparr>) = Inl err \<longrightarrow>
        updateEmail e this em w = (Inl err, w\<lparr>clock_reads := Suc (clock_reads w)\<rparr>)"
    by (simp add: updateEmail_eq [OF self])
  from self have 5: "this \<noteq> length (heap w)"
    by (auto simp: deref_def split: if_splits)
  from self have d: "deref (w\<lparr>clock_reads := Suc (clock_reads w)\<rparr>) this = Some self"
    by (auto simp: deref_def split: if_splits)
  have 6: "deref (snd (updateName e this n w)) this = Some self"
    using deref_append [OF self] d
    by (cases "validate (self\<lparr>u_name := n\<rparr>)") (simp_all add: updateName_eq [OF self])
  have 7: "deref (snd (updateEmail e this em w)) this = Some self"
    using deref_append [OF self] d
    by (cases "validate (self\<lparr>u_email := em\<rparr>)") (simp_all add: updateEmail_eq [OF self])
  from 1 2 3 4 5 6 7 show ?thesis by blast
qed

lemma john_valid: "validate john = Inr ()"
  using isValidEmail_example
  by (simp add: validate_eq john_def trim_examples) (simp add: trim_def str_def isWhiteSpace_def)

lemma deref_john: "deref world1 0 = Some john"
  by (simp add: deref_def world1_def)

theorem derived_updates_witness:
  "deref world1 0 = Some john \<and> validate john = Inr () \<and>
   fst (updateName env0 0 (str ''Jo'') world1) = Inr 1 \<and>
   deref (snd (updateName env0 0 (str ''Jo'') world1)) 1 =
     Some \<lparr>u_id = str ''u1'', u_email = str ''a@b.com'', u_name = str ''Jo'',
           u_createdAt = 1600000000000, u_updatedAt = 1700000000000\<rparr> \<and>
   deref (snd (updateName env0 0 (str ''Jo'') world1)) 0 = Some john \<and>
   updateName env0 0 (str ''J'') world1 =
     (Inl (Error ''User name must be at least 2 characters long''), world1\<lparr>clock_reads := 1\<rparr>)"
proof -
  have n: "trim (str ''Jo'') \<noteq> [] \<and> 2 \<le> length (str ''Jo'') \<and> length (str ''Jo'') \<le> 100"
    by (simp add: trim_def str_def isWhiteSpace_def)
  have b: "validate (john\<lparr>u_name := str ''J''\<rparr>)
            = Inl (Error ''User name must be at least 2 characters long'')"
    using isValidEmail_example
    by (simp add: validate_eq john_def trim_examples) (simp add: str_def)
  note t = derived_updates [OF deref_john john_valid, of _ env0]
  from t [of "str ''Jo''"] n
  have 1: "updateName env0 0 (str ''Jo'') world1 =
          (Inr (length (heap world1)),
           world1\<lparr>clock_reads := Suc (clock_reads world1),
             heap := heap world1 @ [john\<lparr>u_name := str ''Jo'',
                 u_updatedAt := clock env0 (clock_reads world1)\<rparr>]\<rparr>)"
    by blast
  from t [of "str ''J''"] b
  have 2: "updateName env0 0 (str ''J'') world1 =
     (Inl (Error ''User name must be at least 2 characters long''),
      world1\<lparr>clock_reads := Suc (clock_reads world1)\<rparr>)"
    by blast
  have c: "clock_reads world1 = 0" "heap world1 = [john]" "clock env0 0 = 1700000000000"
    by (simp_all add: world1_def world0_def env0_def)
  from 1 2 deref_john john_valid show ?thesis
    by (simp add: c deref_def john_def)
qed

section \<open>Properties of the repository and of the use case\<close>

lemma findUnique_served:
  "backend e (backend_calls w) = Served t \<Longrightarrow>
   prisma_user_findUnique e wh w =
     (Inr (find wh (users_table w)), w\<lparr>backend_calls := Suc (backend_calls w)\<rparr>)"
  by (simp add: prisma_user_findUnique_def backend_call_def)

lemma prisma_down:
  assumes "backend e (backend_calls w) = Unavailable"
  shows "prisma_user_create e i em n w =
           (Inl (StorageError BackendUnavailable), w\<lparr>backend_calls := Suc (backend_calls w)\<rparr>)"
    and "prisma_user_findUnique e wh w =
           (Inl (StorageError BackendUnavailable), w\<lparr>backend_calls := Suc (backend_calls w)\<rparr>)"
    and "prisma_user_findMany_createdAt_desc e w =
           (Inl (StorageError BackendUnavailable), w\<lparr>backend_calls := Suc (backend_calls w)\<rparr>)"
    and "prisma_user_update e i em n w =
           (Inl (StorageError BackendUnavailable), w\<lparr>backend_calls := Suc (backend_calls w)\<rparr>)"
    and "prisma_user_delete e i w =
           (Inl (StorageError BackendUnavailable), w\<lparr>backend_calls := Suc (backend_calls w)\<rparr>)"
  using assms
  by (simp_all add: prisma_user_create_def prisma_user_findUnique_def
      prisma_user_findMany_createdAt_desc_def prisma_user_update_def prisma_user_delete_def
      backend_call_def)

lemma entity_of_row_eq:
  "entity_of_row e r w =
     (case validate (user_of_row r) of
        Inl err \<Rightarrow> (Inl err, w)
      | Inr ok \<Rightarrow> (Inr (length (heap w)), w\<lparr>heap := heap w @ [user_of_row r]\<rparr>))"
  by (simp add: entity_of_row_def new_User_eq Let_def createdAt_given_def
      updatedAt_given_def defaults_read_def user_of_row_def split: sum.splits)

lemma entity_of_row_valid:
  assumes "all_rules (r_id r) (r_email r) (r_name r)"
  shows "entity_of_row e r w = (Inr (length (heap w)), w\<lparr>heap := heap w @ [user_of_row r]\<rparr>)"
proof -
  from assms have "validate (user_of_row r) = Inr ()"
    by (simp add: validate_ok_iff user_of_row_def)
  then show ?thesis by (simp add: entity_of_row_eq)
qed

lemma repository_down:
  assumes down: "backend e (backend_calls w) = Unavailable"
  shows "deref w user = Some u \<Longrightarrow> UserRepository_create e user w =
           (Inl (StorageError BackendUnavailable), w\<lparr>backend_calls := Suc (backend_calls w)\<rparr>)"
    and "UserRepository_findById e i w =
           (Inl (StorageError BackendUnavailable), w\<lparr>backend_calls := Suc (backend_calls w)\<rparr>)"
    and "UserRepository_findByEmail e em w =
           (Inl (StorageError BackendUnavailable), w\<lparr>backend_calls := Suc (backend_calls w)\<rparr>)"
    and "UserRepository_findAll e w =
           (Inl (StorageError BackendUnavailable), w\<lparr>backend_calls := Suc (backend_calls w)\<rparr>)"
    and "deref w user = Some u \<Longrightarrow> UserRepository_update e user w =
           (Inl (StorageError BackendUnavailable), w\<lparr>backend_calls := Suc (backend_calls w)\<rparr>)"
    and "UserRepository_existsByEmail e em w =
           (Inl (StorageError BackendUnavailable), w\<lparr>backend_calls := Suc (backend_calls w)\<rparr>)"
  by (simp_all add: UserRepository_create_def UserRepository_findById_def
      UserRepository_findByEmail_def UserRepository_findAll_def UserRepository_update_def
      UserRepository_existsByEmail_def and_then_def prisma_down [OF down])

lemma execute_passes:
  "UserRepository_findByEmail e (dto_email dto) w = (Inl err, w1) \<Longrightarrow>
     execute e dto w = (Inl err, w1)"
  "UserRepository_findByEmail e (dto_email dto) w = (Inr None, w1) \<Longrightarrow>
   generateId e w1 = (i, w2) \<Longrightarrow>
   new_User e i (dto_email dto) (dto_name dto) None None w2 = (Inl err, w3) \<Longrightarrow>
     execute e dto w = (Inl err, w3)"
  "UserRepository_findByEmail e (dto_email dto) w = (Inr None, w1) \<Longrightarrow>
   generateId e w1 = (i, w2) \<Longrightarrow>
   new_User e i (dto_email dto) (dto_name dto) None None w2 = (Inr user, w3) \<Longrightarrow>
   UserRepository_create e user w3 = (Inl err, w4) \<Longrightarrow>
     execute e dto w = (Inl err, w4)"
  by (simp_all add: execute_def and_then_def Let_def)

lemma execute_down:
  assumes "backend e (backend_calls w) = Unavailable"
  shows "execute e dto w =
           (Inl (StorageError BackendUnavailable), w\<lparr>backend_calls := Suc (backend_calls w)\<rparr>)"
  by (rule execute_passes(1)) (rule repository_down(3) [OF assms])

lemma execute_found:
  assumes served: "backend e (backend_calls w) = Served t"
    and found: "find (\<lambda>r. r_email r = dto_email dto) (users_table w) = Some r"
  shows "execute e dto w =
     (case validate (user_of_row r) of
        Inl err \<Rightarrow> (Inl err, w\<lparr>backend_calls := Suc (backend_calls w)\<rparr>)
      | Inr ok \<Rightarrow>
          (Inl (ConflictException ''User with this email already exists''),
           w\<lparr>backend_calls := Suc (backend_calls w), heap := heap w @ [user_of_row r]\<rparr>))"
  unfolding execute_def Let_def UserRepository_findByEmail_def
  by (simp add: and_then_def findUnique_served [OF served] found entity_of_row_eq
      split: sum.splits)

lemma row1_valid: "all_rules (r_id row1) (r_email row1) (r_name row1)"
  using isValidEmail_example
  by (simp add: all_rules_iff row1_def trim_examples) (simp add: trim_def str_def isWhiteSpace_def)

lemma row_j_invalid:
  "validate (user_of_row row_j) = Inl (Error ''User name must be at least 2 characters long'')"
  using isValidEmail_example
  by (simp add: validate_eq user_of_row_def row_j_def trim_examples)
     (simp add: trim_def str_def isWhiteSpace_def)

text \<open>
  C1, as stated, fails. A table whose row with the email of the request has the name
  \<open>J\<close> makes the use case fail with the validator's error on that row, raised when
  \<^verbatim>\<open>findByEmail\<close> rebuilds the entity, and not with the conflict error. And where the
  conflict error is raised, one entity has been constructed: the one rebuilt from the
  stored row.
\<close>

theorem duplicate_email_conflict_counterexample:
  "row_j \<in> set (users_table world_j) \<and> r_email row_j = dto_email dto0 \<and>
   execute env0 dto0 world_j =
     (Inl (Error ''User name must be at least 2 characters long''),
      world_j\<lparr>backend_calls := 1\<rparr>) \<and>
   fst (execute env0 dto0 world_j)
     \<noteq> Inl (ConflictException ''User with this email already exists'') \<and>
   row1 \<in> set (users_table world2) \<and> r_email row1 = dto_email dto0 \<and>
   heap (snd (execute env0 dto0 world2)) = heap world2 @ [user_of_row row1]"
proof -
  have s: "backend env0 (backend_calls world_j) = Served 1700000000500"
    "backend env0 (backend_calls world2) = Served 1700000000500"
    by (simp_all add: env0_def world_j_def world2_def world0_def)
  have f: "find (\<lambda>r. r_email r = dto_email dto0) (users_table world_j) = Some row_j"
    "find (\<lambda>r. r_email r = dto_email dto0) (users_table world2) = Some row1"
    by (simp_all add: world_j_def world2_def row_j_def row1_def dto0_def)
  have v: "validate (user_of_row row1) = Inr ()"
    using row1_valid by (simp add: validate_ok_iff user_of_row_def)
  have b: "Suc (backend_calls world_j) = 1"
    by (simp add: world_j_def world0_def)
  have 1: "execute env0 dto0 world_j =
     (Inl (Error ''User name must be at least 2 characters long''),
      world_j\<lparr>backend_calls := 1\<rparr>)"
    by (simp add: execute_found [OF s(1) f(1)] row_j_invalid b)
  have 2: "heap (snd (execute env0 dto0 world2)) = heap world2 @ [user_of_row row1]"
    by (simp add: execute_found [OF s(2) f(2)] v)
  have 3: "row_j \<in> set (users_table world_j)" "r_email row_j = dto_email dto0"
    "row1 \<in> set (users_table world2)" "r_email row1 = dto_email dto0"
    by (simp_all add: world_j_def world2_def row_j_def row1_def dto0_def)
  from 1 2 3 show ?thesis by simp
qed

text \<open>
  C1, amended. When the table holds a row with the email of the request, the use case
  fails, the table is unchanged, and the clock and the random generator are not read: no
  identifier is generated and no entity is built from the request. When the backend
  answers and the rows with that email satisfy the six rules, the failure is the conflict
  error, and the one object added to the heap is the entity that \<^verbatim>\<open>findByEmail\<close> builds
  from the stored row. When the backend is down the failure is its storage error, and
  when the row found does not satisfy the rules the failure is the validator's error on
  that row; no object is added in these two cases.
\<close>

theorem duplicate_email_conflict:
  assumes present: "r \<in> set (users_table w)" "r_email r = dto_email dto"
  shows "(\<exists>err. fst (execute e dto w) = Inl err) \<and>
         users_table (snd (execute e dto w)) = users_table w \<and>
         clock_reads (snd (execute e dto w)) = clock_reads w \<and>
         random_draws (snd (execute e dto w)) = random_draws w \<and>
         (backend e (backend_calls w) = Served t \<and>
          (\<forall>r'\<in>set (users_table w). r_email r' = dto_email dto \<longrightarrow>
             all_rules (r_id r') (r_email r') (r_name r')) \<longrightarrow>
            fst (execute e dto w)
              = Inl (ConflictException ''User with this email already exists'') \<and>
            (\<exists>r'\<in>set (users_table w). r_email r' = dto_email dto \<and>
               heap (snd (execute e dto w)) = heap w @ [user_of_row r'])) \<and>
         (backend e (backend_calls w) = Unavailable \<longrightarrow>
            execute e dto w =
              (Inl (StorageError BackendUnavailable),
               w\<lparr>backend_calls := Suc (backend_calls w)\<rparr>)) \<and>
         (\<forall>r' err. backend e (backend_calls w) = Served t \<and>
            find (\<lambda>r. r_email r = dto_email dto) (users_table w) = Some r' \<and>
            validate (user_of_row r') = Inl err \<longrightarrow>
            execute e dto w = (Inl err, w\<lparr>backend_calls := Suc (backend_calls w)\<rparr>))"
proof -
  from present obtain r' where f: "find (\<lambda>r. r_email r = dto_email dto) (users_table w) = Some r'"
    by (cases "find (\<lambda>r. r_email r = dto_email dto) (users_table w)")
       (auto simp: find_None_iff)
  then have r': "r' \<in> set (users_table w)" "r_email r' = dto_email dto"
    by (auto simp: find_Some_iff)
  have frame: "(\<exists>err. fst (execute e dto w) = Inl err) \<and>
         users_table (snd (execute e dto w)) = users_table w \<and>
         clock_reads (snd (execute e dto w)) = clock_reads w \<and>
         random_draws (snd (execute e dto w)) = random_draws w"
  proof (cases "backend e (backend_calls w)")
    case Unavailable
    then show ?thesis by (simp add: execute_down)
  next
    case (Served t')
    then show ?thesis
      by (cases "validate (user_of_row r')") (simp_all add: execute_found [OF Served f])
  qed
  have conflict: "backend e (backend_calls w) = Served t \<and>
          (\<forall>r'\<in>set (users_table w). r_email r' = dto_email dto \<longrightarrow>
             all_rules (r_id r') (r_email r') (r_name r')) \<longrightarrow>
            fst (execute e dto w)
              = Inl (ConflictException ''User with this email already exists'') \<and>
            (\<exists>r'\<in>set (users_table w). r_email r' = dto_email dto \<and>
               heap (snd (execute e dto w)) = heap w @ [user_of_row r'])"
  proof
    assume a: "backend e (backend_calls w) = Served t \<and>
          (\<forall>r'\<in>set (users_table w). r_email r' = dto_email dto \<longrightarrow>
             all_rules (r_id r') (r_email r') (r_name r'))"
    with r' have "all_rules (r_id r') (r_email r') (r_name r')" by blast
    then have v: "validate (user_of_row r') = Inr ()"
      by (simp add: validate_ok_iff user_of_row_def)
    from a have s: "backend e (backend_calls w) = Served t" by blast
    have "execute e dto w =
          (Inl (ConflictException ''User with this email already exists''),
           w\<lparr>backend_calls := Suc (backend_calls w), heap := heap w @ [user_of_row r']\<rparr>)"
      by (simp add: execute_found [OF s f] v)
    with r' show "fst (execute e dto w)
              = Inl (ConflictException ''User with this email already exists'') \<and>
            (\<exists>r'\<in>set (users_table w). r_email r' = dto_email dto \<and>
               heap (snd (execute e dto w)) = heap w @ [user_of_row r'])"
      by auto
  qed
  have down: "backend e (backend_calls w) = Unavailable \<longrightarrow>
            execute e dto w =
              (Inl (StorageError BackendUnavailable),
               w\<lparr>backend_calls := Suc (backend_calls w)\<rparr>)"
    by (simp add: execute_down)
  have invalid: "\<forall>r' err. backend e (backend_calls w) = Served t \<and>
            find (\<lambda>r. r_email r = dto_email dto) (users_table w) = Some r' \<and>
            validate (user_of_row r') = Inl err \<longrightarrow>
            execute e dto w = (Inl err, w\<lparr>backend_calls := Suc (backend_calls w)\<rparr>)"
  proof (intro allI impI)
    fix q err
    assume a: "backend e (backend_calls w) = Served t \<and>
            find (\<lambda>r. r_email r = dto_email dto) (users_table w) = Some q \<and>
            validate (user_of_row q) = Inl err"
    then have s: "backend e (backend_calls w) = Served t"
      and g: "find (\<lambda>r. r_email r = dto_email dto) (users_table w) = Some q"
      and v: "validate (user_of_row q) = Inl err"
      by blast+
    show "execute e dto w = (Inl err, w\<lparr>backend_calls := Suc (backend_calls w)\<rparr>)"
      by (simp add: execute_found [OF s g] v)
  qed
  from frame conflict down invalid show ?thesis by blast
qed

theorem duplicate_email_conflict_witness:
  "backend env0 (backend_calls world2) = Served 1700000000500 \<and>
   row1 \<in> set (users_table world2) \<and> r_email row1 = dto_email dto0 \<and>
   all_rules (r_id row1) (r_email row1) (r_name row1) \<and>
   fst (execute env0 dto0 world2)
     = Inl (ConflictException ''User with this email already exists'') \<and>
   users_table (snd (execute env0 dto0 world2)) = [row1] \<and>
   clock_reads (snd (execute env0 dto0 world2)) = 0 \<and>
   random_draws (snd (execute env0 dto0 world2)) = 0 \<and>
   heap (snd (execute env0 dto0 world2)) = [user_of_row row1]"
proof -
  have 1: "backend env0 (backend_calls world2) = Served 1700000000500"
    by (simp add: env0_def world2_def world0_def)
  have 2: "row1 \<in> set (users_table world2)" "r_email row1 = dto_email dto0"
    by (simp_all add: world2_def row1_def dto0_def)
  have 3: "\<forall>r'\<in>set (users_table world2). r_email r' = dto_email dto0 \<longrightarrow>
                  all_rules (r_id r') (r_email r') (r_name r')"
  proof (intro ballI impI)
    fix r'
    assume "r' \<in> set (users_table world2)"
    then have "r' = row1" by (simp add: world2_def)
    with row1_valid show "all_rules (r_id r') (r_email r') (r_name r')" by simp
  qed
  have w: "users_table world2 = [row1]" "clock_reads world2 = 0" "random_draws world2 = 0"
    "heap world2 = []"
    by (simp_all add: world2_def world0_def)
  note t = duplicate_email_conflict [OF 2, where e = env0 and t = 1700000000500]
  from t 1 3 have c: "fst (execute env0 dto0 world2)
     = Inl (ConflictException ''User with this email already exists'') \<and>
     (\<exists>r'\<in>set (users_table world2). r_email r' = dto_email dto0 \<and>
        heap (snd (execute env0 dto0 world2)) = heap world2 @ [user_of_row r'])"
    by blast
  from t have f: "users_table (snd (execute env0 dto0 world2)) = users_table world2"
    "clock_reads (snd (execute env0 dto0 world2)) = clock_reads world2"
    "random_draws (snd (execute env0 dto0 world2)) = random_draws world2"
    by blast+
  from c f 1 2 row1_valid show ?thesis
    by (simp add: w)
qed

lemma delete_eq:
  "UserRepository_delete e i w =
     (case backend e (backend_calls w) of
        Unavailable \<Rightarrow> (Inr False, w\<lparr>backend_calls := Suc (backend_calls w)\<rparr>)
      | Served t \<Rightarrow>
          if list_ex (\<lambda>r. r_id r = i) (users_table w) then
            (Inr True, w\<lparr>backend_calls := Suc (backend_calls w),
                          users_table := filter (\<lambda>r. r_id r \<noteq> i) (users_table w)\<rparr>)
          else (Inr False, w\<lparr>backend_calls := Suc (backend_calls w)\<rparr>))"
proof (cases "find (\<lambda>r. r_id r = i) (users_table w)")
  case None
  then have "\<not> list_ex (\<lambda>r. r_id r = i) (users_table w)"
    by (simp add: find_None_iff list_ex_iff)
  with None show ?thesis
    by (simp add: UserRepository_delete_def prisma_user_delete_def backend_call_def
        split: reply.splits)
next
  case (Some old)
  then have "list_ex (\<lambda>r. r_id r = i) (users_table w)"
    by (auto simp: find_Some_iff list_ex_iff)
  with Some show ?thesis
    by (simp add: UserRepository_delete_def prisma_user_delete_def backend_call_def
        split: reply.splits)
qed

text \<open>
  C6, as stated, fails in its second half. With the backend down, \<^verbatim>\<open>delete\<close> of an id
  that a row has returns false, and the row stays.
\<close>

theorem delete_reports_removal_counterexample:
  "list_ex (\<lambda>r. r_id r = str ''u2'') (users_table world_j) \<and>
   fst (UserRepository_delete env_down (str ''u2'') world_j) = Inr False \<and>
   fst (UserRepository_delete env_down (str ''u2'') world_j) \<noteq> Inr True \<and>
   users_table (snd (UserRepository_delete env_down (str ''u2'') world_j)) = [row_j]"
  by (simp add: delete_eq env_down_def env0_def world_j_def world0_def row_j_def)

text \<open>
  C6, amended. For an id that no row has, \<^verbatim>\<open>delete\<close> returns false, raises nothing and
  leaves the table as it is. For an id that a row has, it returns true and the table loses
  exactly the rows with that id when the backend serves the call; when the backend is
  down it returns false, raises nothing, and the table keeps the row.
\<close>

theorem delete_reports_removal:
  "(\<not> list_ex (\<lambda>r. r_id r = i) (users_table w) \<longrightarrow>
      fst (UserRepository_delete e i w) = Inr False \<and>
      users_table (snd (UserRepository_delete e i w)) = users_table w) \<and>
   (list_ex (\<lambda>r. r_id r = i) (users_table w) \<and> backend e (backend_calls w) = Served t \<longrightarrow>
      fst (UserRepository_delete e i w) = Inr True \<and>
      users_table (snd (UserRepository_delete e i w)) =
        filter (\<lambda>r. r_id r \<noteq> i) (users_table w) \<and>
      \<not> list_ex (\<lambda>r. r_id r = i) (users_table (snd (UserRepository_delete e i w)))) \<and>
   (list_ex (\<lambda>r. r_id r = i) (users_table w) \<and> backend e (backend_calls w) = Unavailable \<longrightarrow>
      fst (UserRepository_delete e i w) = Inr False \<and>
      users_table (snd (UserRepository_delete e i w)) = users_table w)"
  by (cases "backend e (backend_calls w)") (auto simp: delete_eq list_ex_iff)

theorem delete_reports_removal_witness:
  "list_ex (\<lambda>r. r_id r = str ''u1'') (users_table world2) \<and>
   backend env0 (backend_calls world2) = Served 1700000000500 \<and>
   fst (UserRepository_delete env0 (str ''u1'') world2) = Inr True \<and>
   users_table (snd (UserRepository_delete env0 (str ''u1'') world2)) = [] \<and>
   \<not> list_ex (\<lambda>r. r_id r = str ''u2'') (users_table world2) \<and>
   fst (UserRepository_delete env0 (str ''u2'') world2) = Inr False \<and>
   users_table (snd (UserRepository_delete env0 (str ''u2'') world2)) = [row1] \<and>
   backend env_down (backend_calls world2) = Unavailable \<and>
   fst (UserRepository_delete env_down (str ''u1'') world2) = Inr False \<and>
   users_table (snd (UserRepository_delete env_down (str ''u1'') world2)) = [row1]"
proof -
  have 1: "list_ex (\<lambda>r. r_id r = str ''u1'') (users_table world2)"
    "\<not> list_ex (\<lambda>r. r_id r = str ''u2'') (users_table world2)"
    by (simp_all add: world2_def row1_def str_def)
  have 2: "backend env0 (backend_calls world2) = Served 1700000000500"
    "backend env_down (backend_calls world2) = Unavailable"
    by (simp_all add: env_down_def env0_def world2_def world0_def)
  have 3: "users_table world2 = [row1]" "r_id row1 = str ''u1''"
    by (simp_all add: world2_def row1_def)
  from delete_reports_removal [of "str ''u1''" world2 env0 1700000000500]
    delete_reports_removal [of "str ''u2''" world2 env0 1700000000500]
    delete_reports_removal [of "str ''u1''" world2 env_down 1700000000500] 1 2
  show ?thesis by (simp add: 3)
qed

text \<open>
  C5, as stated, fails for \<^verbatim>\<open>delete\<close>: with the backend down, the call of the storage
  client throws a storage error, and \<^verbatim>\<open>delete\<close> catches it and returns false.
\<close>

theorem errors_pass_through_counterexample:
  "backend env_down (backend_calls world2) = Unavailable \<and>
   prisma_user_delete env_down (str ''u1'') world2 =
     (Inl (StorageError BackendUnavailable), world2\<lparr>backend_calls := 1\<rparr>) \<and>
   UserRepository_delete env_down (str ''u1'') world2 =
     (Inr False, world2\<lparr>backend_calls := 1\<rparr>)"
  by (simp add: delete_eq prisma_user_delete_def backend_call_def env_down_def env0_def
      world2_def world0_def)

text \<open>
  C5, amended. Every error is passed through as it is, by every layer but
  \<^verbatim>\<open>delete\<close>. The constructor fails with the error of the validator, and so does the
  mapping of a row to an entity. Every repository operation other than \<^verbatim>\<open>delete\<close> fails
  with the error of its storage call, which is the storage error of the unavailable
  backend when the backend is down, and with the error of the mapping of a row to an
  entity. The use case fails with the error of \<^verbatim>\<open>findByEmail\<close>, of the construction of
  the entity and of \<^verbatim>\<open>create\<close>. \<^verbatim>\<open>delete\<close> alone turns every error of its storage call,
  the unavailable backend included, into the answer false, and never fails.
\<close>

theorem errors_pass_through:
  "(backend e (backend_calls w) = Unavailable \<longrightarrow>
      (\<forall>u. deref w user = Some u \<longrightarrow>
         UserRepository_create e user w =
           (Inl (StorageError BackendUnavailable), w\<lparr>backend_calls := Suc (backend_calls w)\<rparr>) \<and>
         UserRepository_update e user w =
           (Inl (StorageError BackendUnavailable), w\<lparr>backend_calls := Suc (backend_calls w)\<rparr>)) \<and>
      UserRepository_findById e i w =
        (Inl (StorageError BackendUnavailable), w\<lparr>backend_calls := Suc (backend_calls w)\<rparr>) \<and>
      UserRepository_findByEmail e em w =
        (Inl (StorageError BackendUnavailable), w\<lparr>backend_calls := Suc (backend_calls w)\<rparr>) \<and>
      UserRepository_findAll e w =
        (Inl (StorageError BackendUnavailable), w\<lparr>backend_calls := Suc (backend_calls w)\<rparr>) \<and>
      UserRepository_existsByEmail e em w =
        (Inl (StorageError BackendUnavailable), w\<lparr>backend_calls := Suc (backend_calls w)\<rparr>) \<and>
      UserRepository_delete e i w = (Inr False, w\<lparr>backend_calls := Suc (backend_calls w)\<rparr>)) \<and>
   (\<forall>u err w1. deref w user = Some u \<longrightarrow>
      (prisma_user_create e (u_id u) (u_email u) (u_name u) w = (Inl err, w1) \<longrightarrow>
         UserRepository_create e user w = (Inl err, w1)) \<and>
      (prisma_user_update e (u_id u) (u_email u) (u_name u) w = (Inl err, w1) \<longrightarrow>
         UserRepository_update e user w = (Inl err, w1))) \<and>
   (\<forall>err w1.
      (prisma_user_findUnique e (\<lambda>r. r_id r = i) w = (Inl err, w1) \<longrightarrow>
         UserRepository_findById e i w = (Inl err, w1)) \<and>
      (prisma_user_findUnique e (\<lambda>r. r_email r = em) w = (Inl err, w1) \<longrightarrow>
         UserRepository_findByEmail e em w = (Inl err, w1) \<and>
         UserRepository_existsByEmail e em w = (Inl err, w1)) \<and>
      (prisma_user_findMany_createdAt_desc e w = (Inl err, w1) \<longrightarrow>
         UserRepository_findAll e w = (Inl err, w1)) \<and>
      (prisma_user_delete e i w = (Inl err, w1) \<longrightarrow>
         UserRepository_delete e i w = (Inr False, w1))) \<and>
   (\<forall>g n c u c' u' err.
      validate \<lparr>u_id = g, u_email = em, u_name = n, u_createdAt = c', u_updatedAt = u'\<rparr>
        = Inl err \<longrightarrow>
      fst (new_User e g em n c u w) = Inl err) \<and>
   (\<forall>r err. validate (user_of_row r) = Inl err \<longrightarrow> entity_of_row e r w = (Inl err, w)) \<and>
   (\<forall>u r err w1 w2. deref w user = Some u \<longrightarrow>
      (prisma_user_create e (u_id u) (u_email u) (u_name u) w = (Inr r, w1) \<and>
       entity_of_row e r w1 = (Inl err, w2) \<longrightarrow>
         UserRepository_create e user w = (Inl err, w2)) \<and>
      (prisma_user_update e (u_id u) (u_email u) (u_name u) w = (Inr r, w1) \<and>
       entity_of_row e r w1 = (Inl err, w2) \<longrightarrow>
         UserRepository_update e user w = (Inl err, w2))) \<and>
   (\<forall>r err w1 w2.
      (prisma_user_findUnique e (\<lambda>r. r_id r = i) w = (Inr (Some r), w1) \<and>
       entity_of_row e r w1 = (Inl err, w2) \<longrightarrow>
         UserRepository_findById e i w = (Inl err, w2)) \<and>
      (prisma_user_findUnique e (\<lambda>r. r_email r = em) w = (Inr (Some r), w1) \<and>
       entity_of_row e r w1 = (Inl err, w2) \<longrightarrow>
         UserRepository_findByEmail e em w = (Inl err, w2))) \<and>
   (\<forall>rows err w1 w2.
      prisma_user_findMany_createdAt_desc e w = (Inr rows, w1) \<and>
      map_entity_of_row e rows w1 = (Inl err, w2) \<longrightarrow>
      UserRepository_findAll e w = (Inl err, w2)) \<and>
   (\<forall>r rs err w1.
      entity_of_row e r w = (Inl err, w1) \<longrightarrow>
      map_entity_of_row e (r # rs) w = (Inl err, w1)) \<and>
   (\<forall>r rs x err w1 w2.
      entity_of_row e r w = (Inr x, w1) \<and> map_entity_of_row e rs w1 = (Inl err, w2) \<longrightarrow>
      map_entity_of_row e (r # rs) w = (Inl err, w2)) \<and>
   (\<forall>err w1. UserRepository_findByEmail e (dto_email dto) w = (Inl err, w1) \<longrightarrow>
      execute e dto w = (Inl err, w1)) \<and>
   (\<forall>err w1 g w2 w3.
      UserRepository_findByEmail e (dto_email dto) w = (Inr None, w1) \<and>
      generateId e w1 = (g, w2) \<and>
      new_User e g (dto_email dto) (dto_name dto) None None w2 = (Inl err, w3) \<longrightarrow>
      execute e dto w = (Inl err, w3)) \<and>
   (\<forall>err w1 g w2 created w3 w4.
      UserRepository_findByEmail e (dto_email dto) w = (Inr None, w1) \<and>
      generateId e w1 = (g, w2) \<and>
      new_User e g (dto_email dto) (dto_name dto) None None w2 = (Inr created, w3) \<and>
      UserRepository_create e created w3 = (Inl err, w4) \<longrightarrow>
      execute e dto w = (Inl err, w4)) \<and>
   (\<forall>err. fst (UserRepository_delete e i w) \<noteq> Inl err)"
proof -
  have a: "backend e (backend_calls w) = Unavailable \<longrightarrow>
      (\<forall>u. deref w user = Some u \<longrightarrow>
         UserRepository_create e user w =
           (Inl (StorageError BackendUnavailable), w\<lparr>backend_calls := Suc (backend_calls w)\<rparr>) \<and>
         UserRepository_update e user w =
           (Inl (StorageError BackendUnavailable), w\<lparr>backend_calls := Suc (backend_calls w)\<rparr>)) \<and>
      UserRepository_findById e i w =
        (Inl (StorageError BackendUnavailable), w\<lparr>backend_calls := Suc (backend_calls w)\<rparr>) \<and>
      UserRepository_findByEmail e em w =
        (Inl (StorageError BackendUnavailable), w\<lparr>backend_calls := Suc (backend_calls w)\<rparr>) \<and>
      UserRepository_findAll e w =
        (Inl (StorageError BackendUnavailable), w\<lparr>backend_calls := Suc (backend_calls w)\<rparr>) \<and>
      UserRepository_existsByEmail e em w =
        (Inl (StorageError BackendUnavailable), w\<lparr>backend_calls := Suc (backend_calls w)\<rparr>) \<and>
      UserRepository_delete e i w = (Inr False, w\<lparr>backend_calls := Suc (backend_calls w)\<rparr>)"
    by (simp add: repository_down delete_eq)
  have b: "\<forall>u err w1. deref w user = Some u \<longrightarrow>
      (prisma_user_create e (u_id u) (u_email u) (u_name u) w = (Inl err, w1) \<longrightarrow>
         UserRepository_create e user w = (Inl err, w1)) \<and>
      (prisma_user_update e (u_id u) (u_email u) (u_name u) w = (Inl err, w1) \<longrightarrow>
         UserRepository_update e user w = (Inl err, w1))"
    by (simp add: UserRepository_create_def UserRepository_update_def and_then_def)
  have c: "\<forall>err. fst (UserRepository_delete e i w) \<noteq> Inl err"
    by (simp add: delete_eq split: reply.splits)
  have d: "\<forall>err w1.
      (prisma_user_findUnique e (\<lambda>r. r_id r = i) w = (Inl err, w1) \<longrightarrow>
         UserRepository_findById e i w = (Inl err, w1)) \<and>
      (prisma_user_findUnique e (\<lambda>r. r_email r = em) w = (Inl err, w1) \<longrightarrow>
         UserRepository_findByEmail e em w = (Inl err, w1) \<and>
         UserRepository_existsByEmail e em w = (Inl err, w1)) \<and>
      (prisma_user_findMany_createdAt_desc e w = (Inl err, w1) \<longrightarrow>
         UserRepository_findAll e w = (Inl err, w1)) \<and>
      (prisma_user_delete e i w = (Inl err, w1) \<longrightarrow>
         UserRepository_delete e i w = (Inr False, w1))"
    by (simp add: UserRepository_findById_def UserRepository_findByEmail_def
        UserRepository_existsByEmail_def UserRepository_findAll_def
        UserRepository_delete_def and_then_def)
  have v1: "\<forall>g n c u c' u' err.
      validate \<lparr>u_id = g, u_email = em, u_name = n, u_createdAt = c', u_updatedAt = u'\<rparr>
        = Inl err \<longrightarrow>
      fst (new_User e g em n c u w) = Inl err"
  proof (intro allI impI)
    fix g n c u c' u' err
    assume "validate \<lparr>u_id = g, u_email = em, u_name = n, u_createdAt = c',
              u_updatedAt = u'\<rparr> = Inl err"
    moreover have "validate \<lparr>u_id = g, u_email = em, u_name = n,
        u_createdAt = createdAt_given e c w, u_updatedAt = updatedAt_given e c u w\<rparr>
      = validate \<lparr>u_id = g, u_email = em, u_name = n, u_createdAt = c',
              u_updatedAt = u'\<rparr>"
      by (simp add: validate_eq)
    ultimately have "validate \<lparr>u_id = g, u_email = em, u_name = n,
        u_createdAt = createdAt_given e c w, u_updatedAt = updatedAt_given e c u w\<rparr> = Inl err"
      by simp
    then show "fst (new_User e g em n c u w) = Inl err"
      by (simp add: new_User_eq Let_def)
  qed
  have v2: "\<forall>r err. validate (user_of_row r) = Inl err \<longrightarrow> entity_of_row e r w = (Inl err, w)"
    by (simp add: entity_of_row_eq)
  have p1: "\<forall>u r err w1 w2. deref w user = Some u \<longrightarrow>
      (prisma_user_create e (u_id u) (u_email u) (u_name u) w = (Inr r, w1) \<and>
       entity_of_row e r w1 = (Inl err, w2) \<longrightarrow>
         UserRepository_create e user w = (Inl err, w2)) \<and>
      (prisma_user_update e (u_id u) (u_email u) (u_name u) w = (Inr r, w1) \<and>
       entity_of_row e r w1 = (Inl err, w2) \<longrightarrow>
         UserRepository_update e user w = (Inl err, w2))"
    by (simp add: UserRepository_create_def UserRepository_update_def and_then_def)
  have p2: "\<forall>r err w1 w2.
      (prisma_user_findUnique e (\<lambda>r. r_id r = i) w = (Inr (Some r), w1) \<and>
       entity_of_row e r w1 = (Inl err, w2) \<longrightarrow>
         UserRepository_findById e i w = (Inl err, w2)) \<and>
      (prisma_user_findUnique e (\<lambda>r. r_email r = em) w = (Inr (Some r), w1) \<and>
       entity_of_row e r w1 = (Inl err, w2) \<longrightarrow>
         UserRepository_findByEmail e em w = (Inl err, w2))"
    by (simp add: UserRepository_findById_def UserRepository_findByEmail_def and_then_def)
  have p3: "\<forall>rows err w1 w2.
      prisma_user_findMany_createdAt_desc e w = (Inr rows, w1) \<and>
      map_entity_of_row e rows w1 = (Inl err, w2) \<longrightarrow>
      UserRepository_findAll e w = (Inl err, w2)"
    by (simp add: UserRepository_findAll_def and_then_def)
  have p4: "\<forall>r rs err w1.
      entity_of_row e r w = (Inl err, w1) \<longrightarrow>
      map_entity_of_row e (r # rs) w = (Inl err, w1)"
    by (simp add: and_then_def)
  have p5: "\<forall>r rs x err w1 w2.
      entity_of_row e r w = (Inr x, w1) \<and> map_entity_of_row e rs w1 = (Inl err, w2) \<longrightarrow>
      map_entity_of_row e (r # rs) w = (Inl err, w2)"
    by (simp add: and_then_def)
  have e1: "\<forall>err w1. UserRepository_findByEmail e (dto_email dto) w = (Inl err, w1) \<longrightarrow>
      execute e dto w = (Inl err, w1)"
    using execute_passes(1) by blast
  have e2: "\<forall>err w1 g w2 w3.
      UserRepository_findByEmail e (dto_email dto) w = (Inr None, w1) \<and>
      generateId e w1 = (g, w2) \<and>
      new_User e g (dto_email dto) (dto_name dto) None None w2 = (Inl err, w3) \<longrightarrow>
      execute e dto w = (Inl err, w3)"
    using execute_passes(2) by blast
  have e3: "\<forall>err w1 g w2 created w3 w4.
      UserRepository_findByEmail e (dto_email dto) w = (Inr None, w1) \<and>
      generateId e w1 = (g, w2) \<and>
      new_User e g (dto_email dto) (dto_name dto) None None w2 = (Inr created, w3) \<and>
      UserRepository_create e created w3 = (Inl err, w4) \<longrightarrow>
      execute e dto w = (Inl err, w4)"
    using execute_passes(3) by blast
  show ?thesis by (intro conjI a b c d v1 v2 p1 p2 p3 p4 p5 e1 e2 e3)
qed

section \<open>Only valid users are produced\<close>

lemma pvu_iff:
  "produces_valid_users refs m w \<longleftrightarrow>
     (\<exists>ys. heap (snd (m w)) = heap w @ ys \<and> list_all valid_user ys \<and>
        (\<forall>x. fst (m w) = Inr x \<longrightarrow>
           (\<forall>r\<in>set (refs x). length (heap w) \<le> r \<and> r < length (heap w) + length ys)))"
proof
  assume p: "produces_valid_users refs m w"
  let ?ys = "drop (length (heap w)) (heap (snd (m w)))"
  from p have t: "take (length (heap w)) (heap (snd (m w))) = heap w"
    and v: "list_all valid_user ?ys"
    by (simp_all add: produces_valid_users_def Let_def)
  from t have h: "heap (snd (m w)) = heap w @ ?ys"
    by (metis append_take_drop_id)
  then have l: "length (heap (snd (m w))) = length (heap w) + length ?ys"
    by (metis length_append)
  from p have "\<forall>x. fst (m w) = Inr x \<longrightarrow>
      (\<forall>r\<in>set (refs x). length (heap w) \<le> r \<and> r < length (heap (snd (m w))))"
    by (auto simp: produces_valid_users_def Let_def list_all_iff)
  with l have "\<forall>x. fst (m w) = Inr x \<longrightarrow>
      (\<forall>r\<in>set (refs x). length (heap w) \<le> r \<and> r < length (heap w) + length ?ys)"
    by simp
  with h v show "\<exists>ys. heap (snd (m w)) = heap w @ ys \<and> list_all valid_user ys \<and>
        (\<forall>x. fst (m w) = Inr x \<longrightarrow>
           (\<forall>r\<in>set (refs x). length (heap w) \<le> r \<and> r < length (heap w) + length ys))"
    by blast
next
  assume "\<exists>ys. heap (snd (m w)) = heap w @ ys \<and> list_all valid_user ys \<and>
        (\<forall>x. fst (m w) = Inr x \<longrightarrow>
           (\<forall>r\<in>set (refs x). length (heap w) \<le> r \<and> r < length (heap w) + length ys))"
  then show "produces_valid_users refs m w"
    by (auto simp: produces_valid_users_def Let_def list_all_iff split: sum.splits)
qed

lemma pvu_same_heap:
  assumes "heap (snd (m w)) = heap w" and "\<And>x. refs x = []"
  shows "produces_valid_users refs m w"
  unfolding pvu_iff using assms by simp

lemma pvu_throw:
  assumes "m w = (Inl err, w')" and "heap w' = heap w"
  shows "produces_valid_users refs m w"
  unfolding pvu_iff using assms by simp

lemma pvu_and_then:
  assumes m: "produces_valid_users r0 m w"
    and f: "\<And>x w1. m w = (Inr x, w1) \<Longrightarrow> produces_valid_users refs (f x) w1"
  shows "produces_valid_users refs (and_then m f) w"
proof -
  from m obtain ys where ys: "heap (snd (m w)) = heap w @ ys" "list_all valid_user ys"
    unfolding pvu_iff by blast
  obtain res w1 where mw: "m w = (res, w1)" by (cases "m w")
  show ?thesis
  proof (cases res)
    case (Inl err)
    with mw ys show ?thesis
      unfolding pvu_iff by (simp add: and_then_def)
  next
    case (Inr x)
    with mw have a: "and_then m f w = f x w1" by (simp add: and_then_def)
    from f mw Inr have "produces_valid_users refs (f x) w1" by simp
    then obtain zs where zs: "heap (snd (f x w1)) = heap w1 @ zs" "list_all valid_user zs"
      "\<forall>y. fst (f x w1) = Inr y \<longrightarrow>
         (\<forall>r\<in>set (refs y). length (heap w1) \<le> r \<and> r < length (heap w1) + length zs)"
      unfolding pvu_iff by blast
    from ys mw have h1: "heap w1 = heap w @ ys" by simp
    have b: "\<forall>y. fst (f x w1) = Inr y \<longrightarrow>
           (\<forall>r\<in>set (refs y). length (heap w) \<le> r \<and> r < length (heap w) + length (ys @ zs))"
    proof (intro allI impI ballI)
      fix y r
      assume "fst (f x w1) = Inr y" "r \<in> set (refs y)"
      with zs(3) have "length (heap w1) \<le> r \<and> r < length (heap w1) + length zs" by blast
      with h1 show "length (heap w) \<le> r \<and> r < length (heap w) + length (ys @ zs)" by simp
    qed
    have "heap (snd (and_then m f w)) = heap w @ (ys @ zs) \<and> list_all valid_user (ys @ zs)"
      using zs(1,2) ys(2) h1 unfolding a by simp
    with b show ?thesis unfolding pvu_iff a by blast
  qed
qed

lemma pvu_result:
  assumes m: "produces_valid_users r0 m w" and g: "\<And>x. refs (g x) = r0 x"
  shows "produces_valid_users refs (and_then m (\<lambda>x w'. (Inr (g x), w'))) w"
proof -
  obtain res w1 where mw: "m w = (res, w1)" by (cases "m w")
  from m mw show ?thesis
    unfolding pvu_iff by (cases res) (auto simp: and_then_def g)
qed

lemma pvu_new_User: "produces_valid_users one_ref (new_User e i em n c u) w"
proof -
  let ?obj = "\<lparr>u_id = i, u_email = em, u_name = n,
        u_createdAt = createdAt_given e c w, u_updatedAt = updatedAt_given e c u w\<rparr>"
  show ?thesis
  proof (cases "validate ?obj")
    case (Inl err)
    then show ?thesis unfolding pvu_iff by (simp add: new_User_eq Let_def)
  next
    case (Inr x)
    then have "validate ?obj = Inr ()" by simp
    then have "valid_user ?obj" unfolding valid_user_def validate_ok_iff .
    with Inr show ?thesis unfolding pvu_iff by (simp add: new_User_eq Let_def one_ref_def)
  qed
qed

lemma pvu_entity_of_row: "produces_valid_users one_ref (entity_of_row e r) w"
  unfolding entity_of_row_def by (rule pvu_new_User)

lemma backend_call_heap: "heap (snd (backend_call e w)) = heap w"
  by (simp add: backend_call_def)

lemma prisma_heap:
  "heap (snd (prisma_user_create e i em n w)) = heap w"
  "heap (snd (prisma_user_findUnique e wh w)) = heap w"
  "heap (snd (prisma_user_findMany_createdAt_desc e w)) = heap w"
  "heap (snd (prisma_user_update e i em n w)) = heap w"
  "heap (snd (prisma_user_delete e i w)) = heap w"
  by (simp_all add: prisma_user_create_def prisma_user_findUnique_def
      prisma_user_findMany_createdAt_desc_def prisma_user_update_def prisma_user_delete_def
      backend_call_def Let_def split: reply.splits option.splits)

lemma pvu_updateName: "produces_valid_users one_ref (updateName e this n) w"
proof (cases "deref w this")
  case None
  then show ?thesis by (simp add: pvu_throw updateName_def)
next
  case (Some self)
  have "produces_valid_users one_ref
          (new_User e (u_id self) (u_email self) n (Some (u_createdAt self))
             (Some (clock e (clock_reads w))))
          (w\<lparr>clock_reads := Suc (clock_reads w)\<rparr>)"
    by (rule pvu_new_User)
  with Some show ?thesis
    unfolding pvu_iff by (simp add: updateName_def new_Date_def)
qed

lemma pvu_updateEmail: "produces_valid_users one_ref (updateEmail e this em) w"
proof (cases "deref w this")
  case None
  then show ?thesis by (simp add: pvu_throw updateEmail_def)
next
  case (Some self)
  have "produces_valid_users one_ref
          (new_User e (u_id self) em (u_name self) (Some (u_createdAt self))
             (Some (clock e (clock_reads w))))
          (w\<lparr>clock_reads := Suc (clock_reads w)\<rparr>)"
    by (rule pvu_new_User)
  with Some show ?thesis
    unfolding pvu_iff by (simp add: updateEmail_def new_Date_def)
qed

lemma pvu_create: "produces_valid_users one_ref (UserRepository_create e user) w"
proof (cases "deref w user")
  case None
  then show ?thesis by (simp add: pvu_throw UserRepository_create_def)
next
  case (Some u)
  have "produces_valid_users one_ref
          (and_then (prisma_user_create e (u_id u) (u_email u) (u_name u))
             (\<lambda>createdUser. entity_of_row e createdUser)) w"
    by (rule pvu_and_then [where ?r0.0 = no_ref])
       (simp_all add: pvu_same_heap prisma_heap no_ref_def pvu_entity_of_row)
  with Some show ?thesis
    unfolding pvu_iff by (simp add: UserRepository_create_def)
qed

lemma pvu_update: "produces_valid_users one_ref (UserRepository_update e user) w"
proof (cases "deref w user")
  case None
  then show ?thesis by (simp add: pvu_throw UserRepository_update_def)
next
  case (Some u)
  have "produces_valid_users one_ref
          (and_then (prisma_user_update e (u_id u) (u_email u) (u_name u))
             (\<lambda>updatedUser. entity_of_row e updatedUser)) w"
    by (rule pvu_and_then [where ?r0.0 = no_ref])
       (simp_all add: pvu_same_heap prisma_heap no_ref_def pvu_entity_of_row)
  with Some show ?thesis
    unfolding pvu_iff by (simp add: UserRepository_update_def)
qed

lemma pvu_found:
  "produces_valid_users opt_ref
     (case user of
        None \<Rightarrow> (\<lambda>w. (Inr None, w))
      | Some r \<Rightarrow> and_then (entity_of_row e r) (\<lambda>x w. (Inr (Some x), w))) w"
proof (cases user)
  case None
  then show ?thesis by (simp add: pvu_iff opt_ref_def)
next
  case (Some r)
  have "produces_valid_users opt_ref
          (and_then (entity_of_row e r) (\<lambda>x w. (Inr (Some x), w))) w"
    by (rule pvu_result [where ?r0.0 = one_ref])
       (simp_all add: pvu_entity_of_row opt_ref_def one_ref_def)
  with Some show ?thesis by simp
qed

lemma pvu_findById: "produces_valid_users opt_ref (UserRepository_findById e i) w"
  unfolding UserRepository_findById_def
  by (rule pvu_and_then [where ?r0.0 = no_ref])
     (simp_all add: pvu_same_heap prisma_heap no_ref_def pvu_found)

lemma pvu_findByEmail: "produces_valid_users opt_ref (UserRepository_findByEmail e em) w"
  unfolding UserRepository_findByEmail_def
  by (rule pvu_and_then [where ?r0.0 = no_ref])
     (simp_all add: pvu_same_heap prisma_heap no_ref_def pvu_found)

lemma pvu_map_entity_of_row:
  "produces_valid_users (\<lambda>rs. rs) (map_entity_of_row e rows) w"
proof (induction rows arbitrary: w)
  case Nil
  show ?case by (simp add: pvu_iff)
next
  case (Cons r rs)
  obtain res w1 where 1: "entity_of_row e r w = (res, w1)" by (cases "entity_of_row e r w")
  from pvu_entity_of_row [of e r w] 1
  obtain ys where ys: "heap w1 = heap w @ ys" "list_all valid_user ys"
    "\<forall>x. res = Inr x \<longrightarrow> length (heap w) \<le> x \<and> x < length (heap w) + length ys"
    unfolding pvu_iff by (auto simp: one_ref_def)
  show ?case
  proof (cases res)
    case (Inl err)
    with 1 ys show ?thesis
      unfolding pvu_iff by (simp add: and_then_def)
  next
    case (Inr x)
    obtain res2 w2 where 2: "map_entity_of_row e rs w1 = (res2, w2)"
      by (cases "map_entity_of_row e rs w1")
    from Cons.IH [of w1] 2
    obtain zs where zs: "heap w2 = heap w1 @ zs" "list_all valid_user zs"
      "\<forall>xs. res2 = Inr xs \<longrightarrow>
         (\<forall>r\<in>set xs. length (heap w1) \<le> r \<and> r < length (heap w1) + length zs)"
      unfolding pvu_iff by auto
    have a: "map_entity_of_row e (r # rs) w =
               (case res2 of Inl err \<Rightarrow> (Inl err, w2) | Inr xs \<Rightarrow> (Inr (x # xs), w2))"
      using 1 2 Inr by (simp add: and_then_def split: sum.splits)
    have b: "\<forall>xs. fst (map_entity_of_row e (r # rs) w) = Inr xs \<longrightarrow>
             (\<forall>r\<in>set xs. length (heap w) \<le> r \<and> r < length (heap w) + length (ys @ zs))"
    proof (intro allI impI ballI)
      fix xs q
      assume xs: "fst (map_entity_of_row e (r # rs) w) = Inr xs" and q: "q \<in> set xs"
      from xs obtain xs' where x': "res2 = Inr xs'" "xs = x # xs'"
        unfolding a by (cases res2) auto
      from q x' have "q = x \<or> q \<in> set xs'" by simp
      then show "length (heap w) \<le> q \<and> q < length (heap w) + length (ys @ zs)"
      proof
        assume "q = x"
        with ys(3) Inr show ?thesis by simp
      next
        assume "q \<in> set xs'"
        with zs(3) x' have "length (heap w1) \<le> q \<and> q < length (heap w1) + length zs" by blast
        with ys(1) show ?thesis by simp
      qed
    qed
    have "heap (snd (map_entity_of_row e (r # rs) w)) = heap w @ (ys @ zs) \<and>
          list_all valid_user (ys @ zs)"
      using ys(1,2) zs(1,2) unfolding a by (cases res2) simp_all
    with b show ?thesis unfolding pvu_iff by blast
  qed
qed

lemma pvu_findAll: "produces_valid_users (\<lambda>rs. rs) (UserRepository_findAll e) w"
  unfolding UserRepository_findAll_def
  by (rule pvu_and_then [where ?r0.0 = no_ref])
     (simp_all add: pvu_same_heap prisma_heap no_ref_def pvu_map_entity_of_row)

lemma pvu_delete: "produces_valid_users no_ref (UserRepository_delete e i) w"
proof -
  have "heap (snd (UserRepository_delete e i w)) = heap (snd (prisma_user_delete e i w))"
    by (simp add: UserRepository_delete_def split: prod.splits sum.splits)
  then show ?thesis by (simp add: pvu_same_heap prisma_heap no_ref_def)
qed

lemma pvu_existsByEmail: "produces_valid_users no_ref (UserRepository_existsByEmail e em) w"
  unfolding UserRepository_existsByEmail_def
  by (rule pvu_and_then [where ?r0.0 = no_ref])
     (simp_all add: pvu_same_heap prisma_heap no_ref_def)

lemma pvu_UserResponseDto: "produces_valid_users no_ref (UserResponseDto r) w"
  by (rule pvu_same_heap) (simp_all add: UserResponseDto_def no_ref_def split: option.splits)

lemma pvu_execute: "produces_valid_users no_ref (execute e dto) w"
proof -
  have step: "produces_valid_users no_ref
      (\<lambda>w. let (id, w1) = generateId e w
            in and_then (new_User e id (dto_email dto) (dto_name dto) None None)
                 (\<lambda>user. and_then (UserRepository_create e user)
                    (\<lambda>createdUser. UserResponseDto createdUser)) w1) w1" for w1
  proof -
    obtain i w2 where g: "generateId e w1 = (i, w2)" by (cases "generateId e w1")
    then have h: "heap w2 = heap w1"
      by (auto simp: generateId_def Date_now_def Math_random_toString36_def)
    have "produces_valid_users no_ref
        (and_then (new_User e i (dto_email dto) (dto_name dto) None None)
                 (\<lambda>user. and_then (UserRepository_create e user)
                    (\<lambda>createdUser. UserResponseDto createdUser))) w2"
      by (intro pvu_and_then [where ?r0.0 = one_ref] pvu_new_User pvu_create
          pvu_UserResponseDto)
    with g h show ?thesis unfolding pvu_iff by simp
  qed
  show ?thesis
    unfolding execute_def Let_def
    by (rule pvu_and_then [where ?r0.0 = opt_ref])
       (auto simp: pvu_findByEmail step [unfolded Let_def] intro: pvu_throw)
qed

text \<open>
  C9. The constructor, the derived updates, the seven repository operations and the use
  case produce only valid users: whatever the state they start in, every object they add
  to the heap satisfies the six rules, the objects already there are left as they are, and
  every reference they return points to an object they added.
\<close>

theorem only_valid_users:
  "produces_valid_users one_ref (new_User e i em n c u) w \<and>
   produces_valid_users one_ref (updateName e this n) w \<and>
   produces_valid_users one_ref (updateEmail e this em) w \<and>
   produces_valid_users one_ref (UserRepository_create e user) w \<and>
   produces_valid_users opt_ref (UserRepository_findById e i) w \<and>
   produces_valid_users opt_ref (UserRepository_findByEmail e em) w \<and>
   produces_valid_users (\<lambda>rs. rs) (UserRepository_findAll e) w \<and>
   produces_valid_users one_ref (UserRepository_update e user) w \<and>
   produces_valid_users no_ref (UserRepository_delete e i) w \<and>
   produces_valid_users no_ref (UserRepository_existsByEmail e em) w \<and>
   produces_valid_users no_ref (execute e dto) w"
  by (intro conjI pvu_new_User pvu_updateName pvu_updateEmail pvu_create pvu_findById
      pvu_findByEmail pvu_findAll pvu_update pvu_delete pvu_existsByEmail pvu_execute)

section \<open>A successful run, step by step\<close>

lemma johnny_valid: "validate (johnny c u) = Inr ()"
  using isValidEmail_example
  by (simp add: validate_eq johnny_def trim_examples)
     (simp add: trim_def str_def isWhiteSpace_def generated_id_def)

lemma run_lookup:
  "UserRepository_findByEmail env0 (str ''a@b.com'') world0 = (Inr None, after_lookup)"
  by (simp add: UserRepository_findByEmail_def and_then_def prisma_user_findUnique_def
      backend_call_def env0_def world0_def after_lookup_def)

lemma run_generateId: "generateId env0 after_lookup = (generated_id, after_generateId)"
  by (simp add: generateId_def Date_now_def Math_random_toString36_def env0_def world0_def
      after_lookup_def after_generateId_def substr_def Number_toString_def digits_step
      digits_small generated_id_def str_def)

lemma run_new_User:
  "new_User env0 generated_id (str ''a@b.com'') (str ''Johnny'') None None after_generateId
     = (Inr 0, after_new_User)"
proof -
  have "createdAt_given env0 None after_generateId = 1700000000001"
    "updatedAt_given env0 None None after_generateId = 1700000000002"
    by (simp_all add: createdAt_given_def updatedAt_given_def env0_def after_generateId_def)
  then show ?thesis
    using johnny_valid [of 1700000000001 1700000000002]
    by (simp add: new_User_eq Let_def johnny_def [symmetric])
       (simp add: after_new_User_def after_generateId_def after_lookup_def world0_def
          defaults_read_def)
qed

lemma run_create: "UserRepository_create env0 0 after_new_User = (Inr (Suc 0), after_create)"
proof -
  have d: "deref after_new_User 0 = Some (johnny 1700000000001 1700000000002)"
    by (simp add: deref_def after_new_User_def)
  have p: "prisma_user_create env0 generated_id (str ''a@b.com'') (str ''Johnny'') after_new_User
      = (Inr johnny_row, after_new_User\<lparr>backend_calls := 2, users_table := [johnny_row]\<rparr>)"
    by (simp add: prisma_user_create_def backend_call_def env0_def after_new_User_def
        after_generateId_def after_lookup_def world0_def johnny_row_def Let_def)
  have n: "entity_of_row env0 johnny_row
             (after_new_User\<lparr>backend_calls := 2, users_table := [johnny_row]\<rparr>)
           = (Inr (Suc 0), after_create)"
    using johnny_valid [of 1700000000501 1700000000501]
    by (simp add: entity_of_row_def new_User_eq Let_def johnny_row_def createdAt_given_def
        updatedAt_given_def johnny_def [symmetric])
       (simp add: after_create_def after_new_User_def defaults_read_def johnny_row_def)
  show ?thesis
    by (simp add: UserRepository_create_def d and_then_def johnny_def p n)
qed

lemma run_UserResponseDto:
  "UserResponseDto (Suc 0) after_create =
     (Inr \<lparr>res_id = generated_id, res_email = str ''a@b.com'', res_name = str ''Johnny'',
           res_createdAt = 1700000000501, res_updatedAt = 1700000000501\<rparr>, after_create)"
  by (simp add: UserResponseDto_def deref_def after_create_def johnny_def)

lemma execute_example:
  "execute env0 dto0 world0 =
     (Inr \<lparr>res_id = generated_id, res_email = str ''a@b.com'', res_name = str ''Johnny'',
           res_createdAt = 1700000000501, res_updatedAt = 1700000000501\<rparr>, after_create)"
  unfolding execute_def Let_def
  by (simp add: dto0_def and_then_def run_lookup run_generateId run_new_User run_create
      run_UserResponseDto)

theorem only_valid_users_witness:
  "produces_valid_users no_ref (execute env0 dto0) world0 \<and>
   map u_id (heap (snd (execute env0 dto0 world0))) = [generated_id, generated_id] \<and>
   list_all valid_user (heap (snd (execute env0 dto0 world0)))"
proof -
  from only_valid_users [where e = env0 and w = world0 and dto = dto0]
  have p: "produces_valid_users no_ref (execute env0 dto0) world0" by blast
  then have "list_all valid_user (drop (length (heap world0)) (heap (snd (execute env0 dto0 world0))))"
    by (simp add: produces_valid_users_def Let_def)
  then have "list_all valid_user (heap (snd (execute env0 dto0 world0)))"
    by (simp add: world0_def)
  moreover have "map u_id (heap (snd (execute env0 dto0 world0))) = [generated_id, generated_id]"
    by (simp add: execute_example after_create_def johnny_def)
  ultimately show ?thesis using p by blast
qed

theorem errors_pass_through_witness:
  "backend env_down (backend_calls world2) = Unavailable \<and>
   UserRepository_findByEmail env_down (dto_email dto0) world2 =
     (Inl (StorageError BackendUnavailable), world2\<lparr>backend_calls := 1\<rparr>) \<and>
   execute env_down dto0 world2 =
     (Inl (StorageError BackendUnavailable), world2\<lparr>backend_calls := 1\<rparr>) \<and>
   UserRepository_delete env_down (str ''u1'') world2 =
     (Inr False, world2\<lparr>backend_calls := 1\<rparr>) \<and>
   validate (user_of_row row_j) = Inl (Error ''User name must be at least 2 characters long'') \<and>
   UserRepository_findByEmail env0 (dto_email dto0) world_j =
     (Inl (Error ''User name must be at least 2 characters long''),
      world_j\<lparr>backend_calls := 1\<rparr>)"
proof -
  have d: "backend env_down (backend_calls world2) = Unavailable"
    by (simp add: env_down_def)
  have b: "Suc (backend_calls world2) = 1"
    by (simp add: world2_def world0_def)
  note t = errors_pass_through [where e = env_down and w = world2 and i = "str ''u1''"
      and em = "dto_email dto0" and dto = dto0]
  from t d have 1: "UserRepository_findByEmail env_down (dto_email dto0) world2 =
     (Inl (StorageError BackendUnavailable), world2\<lparr>backend_calls := Suc (backend_calls world2)\<rparr>)"
    by blast
  from t d have 2: "UserRepository_delete env_down (str ''u1'') world2 =
     (Inr False, world2\<lparr>backend_calls := Suc (backend_calls world2)\<rparr>)"
    by blast
  from t 1 have 3: "execute env_down dto0 world2 =
     (Inl (StorageError BackendUnavailable), world2\<lparr>backend_calls := Suc (backend_calls world2)\<rparr>)"
    by blast
  have f: "prisma_user_findUnique env0 (\<lambda>r. r_email r = dto_email dto0) world_j =
     (Inr (Some row_j), world_j\<lparr>backend_calls := 1\<rparr>)"
    by (simp add: prisma_user_findUnique_def backend_call_def env0_def world_j_def world0_def
        row_j_def dto0_def)
  note v = errors_pass_through [where e = env0 and w = "world_j\<lparr>backend_calls := 1\<rparr>",
      THEN conjunct2, THEN conjunct2, THEN conjunct2, THEN conjunct2, THEN conjunct1]
  from v row_j_invalid
  have 4: "entity_of_row env0 row_j (world_j\<lparr>backend_calls := 1\<rparr>) =
     (Inl (Error ''User name must be at least 2 characters long''),
      world_j\<lparr>backend_calls := 1\<rparr>)"
    by blast
  note p = errors_pass_through [where e = env0 and w = world_j and em = "dto_email dto0",
      THEN conjunct2, THEN conjunct2, THEN conjunct2, THEN conjunct2, THEN conjunct2,
      THEN conjunct2, THEN conjunct1]
  from p f 4
  have 5: "UserRepository_findByEmail env0 (dto_email dto0) world_j =
     (Inl (Error ''User name must be at least 2 characters long''),
      world_j\<lparr>backend_calls := 1\<rparr>)"
    by blast
  from d 1 2 3 5 row_j_invalid show ?thesis unfolding b by blast
qed

end
